theory Spec2Isabelle
  imports Main "HOL-Library.Sublist"
begin

section \<open>Strings and the control characters of the console\<close>

text \<open>
  The source is Python 2: a \<open>str\<close> is a sequence of bytes, as \<^typ>\<open>string\<close> is.
  The three control characters the source writes as escapes:
  \<open>\x1b\<close> (escape), \<open>\r\<close> (carriage return) and \<open>\n\<close> (newline).
\<close>

abbreviation ESC :: char where "ESC \<equiv> CHR 0x1B"
abbreviation CR :: char where "CR \<equiv> CHR 0x0D"
abbreviation LF :: char where "LF \<equiv> CHR 0x0A"

subsection \<open>\<open>str.replace\<close>\<close>

text \<open>
  \<open>text.replace(old, new)\<close> scans from the left and replaces the occurrences of
  \<open>old\<close> that do not overlap an occurrence already replaced. With an empty \<open>old\<close>
  Python puts \<open>new\<close> before every character and at the end.
\<close>

fun replace :: "string \<Rightarrow> string \<Rightarrow> string \<Rightarrow> string" where
  "replace old new [] = (if old = [] then new else [])"
| "replace old new (c # cs) =
     (if old = [] then new @ c # replace old new cs
      else if take (length old) (c # cs) = old
        then new @ replace old new (drop (length old - 1) cs)
      else c # replace old new cs)"

text \<open>\<open>old in text\<close>: the substring test, as an executable scan.\<close>

fun contains :: "string \<Rightarrow> string \<Rightarrow> bool" where
  "contains old [] = (old = [])"
| "contains old (c # cs) = (take (length old) (c # cs) = old \<or> contains old cs)"

subsection \<open>\<open>untag\<close>\<close>

text \<open>The six control sequences, in the order in which \<open>untag\<close> removes them.\<close>

definition control_sequences :: "string list" where
  "control_sequences =
     [ESC # ''[m'', ESC # ''[32m'', ESC # ''[1m'', ESC # ''[31;1m'', ESC # ''[K'', ESC # ''[36m'']"

definition untag :: "string \<Rightarrow> string" where
  "untag text =
     replace (ESC # ''[36m'') ''''
       (replace (ESC # ''[K'') ''''
         (replace (ESC # ''[31;1m'') ''''
           (replace (ESC # ''[1m'') ''''
             (replace (ESC # ''[32m'') ''''
               (replace (ESC # ''[m'') '''' text)))))"

section \<open>The patterns of \<open>re.findall\<close>\<close>

text \<open>
  Every pattern of the source is a sequence of literal text and of repetitions of one
  character class, each repetition either a capturing group (\<open>(.*)\<close>, \<open>(.*?)\<close>,
  \<open>(\d)\<close>, \<open>(\d+)\<close>) or a group that captures nothing (\<open>(?:[\s\S]*)\<close>,
  \<open>(?:[\s\S]*?)\<close>). The classes: \<open>.\<close> is every character but the newline,
  \<open>\d\<close> is a decimal digit, \<open>[\s\S]\<close> is every character.
\<close>

datatype cclass = Dot | Digit | AnyChar

datatype quant = Once | Star | Plus | StarLazy

datatype token = Lit string | Group cclass quant | NonCap cclass quant

fun in_class :: "cclass \<Rightarrow> char \<Rightarrow> bool" where
  "in_class Dot c = (c \<noteq> LF)"
| "in_class Digit c = (c \<in> set ''0123456789'')"
| "in_class AnyChar c = True"

text \<open>
  The backtracking matcher. \<open>rmatch p s\<close> matches the pattern at the front of \<open>s\<close>
  and returns its first success, with the text of each capturing group and the number of
  characters the match covers; \<open>None\<close> when every alternative fails.
  \<open>rep cl q ts s\<close> is one repetition followed by the rest \<open>ts\<close> of the pattern: it
  returns the text the repetition took as well. A greedy repetition (\<open>*\<close>, \<open>+\<close>)
  takes one more character whenever it can and gives characters back, one at a time,
  while the rest of the pattern fails; a lazy one (\<open>*?\<close>) tries the rest of the
  pattern first and takes one more character only when that fails.
\<close>

function rmatch :: "token list \<Rightarrow> string \<Rightarrow> (string list \<times> nat) option"
  and rep :: "cclass \<Rightarrow> quant \<Rightarrow> token list \<Rightarrow> string \<Rightarrow> (string \<times> string list \<times> nat) option"
where
  "rmatch [] s = Some ([], 0)"
| "rmatch (Lit l # ts) s =
     (if take (length l) s = l
      then map_option (\<lambda>(caps, n). (caps, length l + n)) (rmatch ts (drop (length l) s))
      else None)"
| "rmatch (Group cl q # ts) s =
     map_option (\<lambda>(m, caps, n). (m # caps, length m + n)) (rep cl q ts s)"
| "rmatch (NonCap cl q # ts) s =
     map_option (\<lambda>(m, caps, n). (caps, length m + n)) (rep cl q ts s)"
| "rep cl Once ts [] = None"
| "rep cl Once ts (c # cs) =
     (if in_class cl c then map_option (\<lambda>r. ([c], r)) (rmatch ts cs) else None)"
| "rep cl Plus ts [] = None"
| "rep cl Plus ts (c # cs) =
     (if in_class cl c then map_option (\<lambda>(m, r). (c # m, r)) (rep cl Star ts cs) else None)"
| "rep cl Star ts [] = map_option (\<lambda>r. ([], r)) (rmatch ts [])"
| "rep cl Star ts (c # cs) =
     (if in_class cl c
      then (case rep cl Star ts cs of
              Some (m, r) \<Rightarrow> Some (c # m, r)
            | None \<Rightarrow> map_option (\<lambda>r. ([], r)) (rmatch ts (c # cs)))
      else map_option (\<lambda>r. ([], r)) (rmatch ts (c # cs)))"
| "rep cl StarLazy ts [] = map_option (\<lambda>r. ([], r)) (rmatch ts [])"
| "rep cl StarLazy ts (c # cs) =
     (case rmatch ts (c # cs) of
        Some r \<Rightarrow> Some ([], r)
      | None \<Rightarrow>
          if in_class cl c then map_option (\<lambda>(m, r). (c # m, r)) (rep cl StarLazy ts cs)
          else None)"
  by pat_completeness auto
termination
  by (relation "measures
        [\<lambda>x. case x of Inl (ts, s) \<Rightarrow> 2 * length ts | Inr (cl, q, ts, s) \<Rightarrow> 2 * length ts + 1,
         \<lambda>x. case x of Inl (ts, s) \<Rightarrow> length s | Inr (cl, q, ts, s) \<Rightarrow> length s]") auto

text \<open>
  \<open>re.findall\<close>: the matches from left to right, none overlapping an earlier one; the
  search goes on behind the end of a match, and one character further where nothing
  matches. Each match is the list of its groups (the tuple Python returns; the one string
  when the pattern has one group). Every pattern of the source begins or ends with
  literal text, so no match is empty.
\<close>

fun findall :: "token list \<Rightarrow> string \<Rightarrow> string list list" where
  "findall p [] = (case rmatch p [] of Some (caps, n) \<Rightarrow> [caps] | None \<Rightarrow> [])"
| "findall p (c # cs) =
     (case rmatch p (c # cs) of
        Some (caps, n) \<Rightarrow> caps # findall p (drop (n - 1) cs)
      | None \<Rightarrow> findall p cs)"

text \<open>The number of capturing groups of a pattern: the length of each tuple of a match.\<close>

fun groups :: "token list \<Rightarrow> nat" where
  "groups [] = 0"
| "groups (Lit l # ts) = groups ts"
| "groups (Group cl q # ts) = Suc (groups ts)"
| "groups (NonCap cl q # ts) = groups ts"

section \<open>Errors, the telnet connection and the result check\<close>

text \<open>
  \<open>RosError\<close> is the one exception the source raises itself. Reading a local variable
  that no assignment has reached raises Python's \<open>UnboundLocalError\<close>, and reading a key
  that a dictionary does not have raises \<open>KeyError\<close>.
\<close>

datatype error = RosError string | UnboundLocalError string | KeyError string

text \<open>
  The connection of \<open>TelnetCtrl\<close>: the lines written so far, and what the router
  sends, as the chunks that the successive calls of \<open>read_very_eager\<close> find (the bytes
  that have arrived since the call before; the fixed \<open>time.sleep\<close> before each call
  is the only waiting the source does). The connection stays open: a call that finds
  nothing returns the empty string.
\<close>

record telnet =
  written :: "string list"
  incoming :: "string list"

definition api_write :: "string \<Rightarrow> telnet \<Rightarrow> telnet" where
  "api_write command api = api\<lparr>written := written api @ [command @ [CR]]\<rparr>"

definition read_very_eager :: "telnet \<Rightarrow> string \<times> telnet" where
  "read_very_eager api =
     (case incoming api of
        [] \<Rightarrow> ([], api)
      | chunk # rest \<Rightarrow> (chunk, api\<lparr>incoming := rest\<rparr>))"

text \<open>The pattern \<open>"\r\n\r(.*)\n\r"\<close> of \<open>check_result\<close>.\<close>

definition failure_pattern :: "token list" where
  "failure_pattern = [Lit [CR, LF, CR], Group Dot Star, Lit [LF, CR]]"

text \<open>
  \<open>check_result\<close> raises when the pattern is found, with the group of the first match
  in the message; otherwise it returns, and the value of the model is the line it gives
  to \<open>logger.info\<close>.
\<close>

definition check_result :: "string \<Rightarrow> string \<Rightarrow> error + string" where
  "check_result whr result =
     (let failure = map (\<lambda>caps. caps ! 0) (findall failure_pattern result)
      in case failure of
           [] \<Rightarrow> Inr (whr @ '' Success'')
         | msg # _ \<Rightarrow> Inl (RosError (whr @ '' Failed, '' @ msg)))"

section \<open>Address pools\<close>

text \<open>
  \<open>"name=\"(.*)\" ranges=(.*) "\<close>. \<open>get_address_pool\<close> returns the list of the
  matches, pairs of name and ranges; the dictionary it fills from them is not returned.
\<close>

definition pool_pattern :: "token list" where
  "pool_pattern = [Lit ''name=\"'', Group Dot Star, Lit ''\" ranges='', Group Dot Star, Lit '' '']"

definition get_address_pool :: "telnet \<Rightarrow> (string \<times> string) list \<times> telnet" where
  "get_address_pool api =
     (let cmd = ''/ip pool print detail'';
          api1 = api_write cmd api;
          (raw, api2) = read_very_eager api1;
          rc = untag raw;
          pool_list = map (\<lambda>pool. (pool ! 0, pool ! 1)) (findall pool_pattern rc);
          pool_dict = foldl (\<lambda>d pool. d(fst pool \<mapsto> snd pool)) Map.empty pool_list
      in (pool_list, api2))"


section \<open>Records and the lookups in them\<close>

text \<open>
  The extracted entities are dictionaries from field names to strings. \<open>d[k]\<close> raises
  \<open>KeyError\<close> for a key the dictionary does not have.
\<close>

type_synonym dict = "string \<rightharpoonup> string"

definition getitem :: "dict \<Rightarrow> string \<Rightarrow> error + string" where
  "getitem d k = (case d k of None \<Rightarrow> Inl (KeyError k) | Some v \<Rightarrow> Inr v)"

text \<open>
  The variable \<open>num\<close> of the lookup helpers starts as the integer \<open>-1\<close> and is
  overwritten with a string of the record; Python compares the two kinds as unequal.
\<close>

datatype pyval = PyInt int | PyStr string

text \<open>
  The loop of the three lookup helpers, which differ in the field compared:
  \<open>for r in records: if r[field] == key: num = r["num"]\<close>.
\<close>

fun number_loop :: "string \<Rightarrow> string \<Rightarrow> dict list \<Rightarrow> pyval \<Rightarrow> error + pyval" where
  "number_loop field key [] num = Inr num"
| "number_loop field key (r # rs) num =
     (case getitem r field of
        Inl e \<Rightarrow> Inl e
      | Inr v \<Rightarrow>
          if v = key
          then (case getitem r ''num'' of
                  Inl e \<Rightarrow> Inl e
                | Inr n \<Rightarrow> number_loop field key rs (PyStr n))
          else number_loop field key rs num)"

section \<open>DHCP server\<close>

definition add_dhcp_server ::
  "string \<Rightarrow> string \<Rightarrow> string \<Rightarrow> string \<Rightarrow> bool \<Rightarrow> telnet \<Rightarrow> (error + string) \<times> telnet" where
  "add_dhcp_server name interface address_pool lease_time enabled api =
     (let enabled' = (if enabled then ''no'' else ''yes'');
          cmd = ''/ip dhcp-server add name='' @ name @ '' interface='' @ interface
                @ '' address-pool='' @ address_pool @ '' lease-time='' @ lease_time
                @ '' disabled='' @ enabled';
          api1 = api_write cmd api;
          (rc, api2) = read_very_eager api1
      in (check_result ''Add DHCP Server'' rc, api2))"

text \<open>
  \<open>"address=(.*) mac-address=(.*) (?:[\s\S]*)server=(.*) (?:[\s\S]*)host-name=\"(.*)\" "\<close>
\<close>

definition client_pattern :: "token list" where
  "client_pattern =
     [Lit ''address='', Group Dot Star, Lit '' mac-address='', Group Dot Star, Lit '' '',
      NonCap AnyChar Star, Lit ''server='', Group Dot Star, Lit '' '',
      NonCap AnyChar Star, Lit ''host-name=\"'', Group Dot Star, Lit ''\" '']"

definition client_dict :: "string list \<Rightarrow> dict" where
  "client_dict client =
     [''ip'' \<mapsto> client ! 0, ''mac'' \<mapsto> client ! 1, ''server'' \<mapsto> client ! 2,
      ''hostname'' \<mapsto> client ! 3]"

definition get_dhcp_server_client :: "telnet \<Rightarrow> dict list \<times> telnet" where
  "get_dhcp_server_client api =
     (let cmd = ''/ip dhcp-server lease print detail'';
          api1 = api_write cmd api;
          (raw, api2) = read_very_eager api1;
          rc = untag raw;
          client_result = findall client_pattern rc
      in (map client_dict client_result, api2))"

text \<open>
  \<open>"(\d) address=(.*?) gateway=(.*?) netmask=(.*?) (?:[\s\S]*)dns-server=(.*?) "\<close>
\<close>

definition network_pattern :: "token list" where
  "network_pattern =
     [Group Digit Once, Lit '' address='', Group Dot StarLazy, Lit '' gateway='',
      Group Dot StarLazy, Lit '' netmask='', Group Dot StarLazy, Lit '' '',
      NonCap AnyChar Star, Lit ''dns-server='', Group Dot StarLazy, Lit '' '']"

definition network_dict :: "string list \<Rightarrow> dict" where
  "network_dict network =
     [''num'' \<mapsto> network ! 0, ''address'' \<mapsto> network ! 1, ''gateway'' \<mapsto> network ! 2,
      ''netmask'' \<mapsto> network ! 3, ''dns_server'' \<mapsto> network ! 4]"

definition get_dhcp_server_network :: "telnet \<Rightarrow> dict list \<times> telnet" where
  "get_dhcp_server_network api =
     (let cmd = ''/ip dhcp-server network print detail'';
          api1 = api_write cmd api;
          (raw, api2) = read_very_eager api1;
          rc = untag raw;
          network_result = findall network_pattern rc
      in (map network_dict network_result, api2))"

definition get_dhcp_server_network_number :: "string \<Rightarrow> telnet \<Rightarrow> (error + pyval) \<times> telnet" where
  "get_dhcp_server_network_number address api =
     (let (network_list, api1) = get_dhcp_server_network api
      in case number_loop ''address'' address network_list (PyInt (- 1)) of
           Inl e \<Rightarrow> (Inl e, api1)
         | Inr num \<Rightarrow>
             if num = PyInt (- 1)
             then (Inl (RosError (''No Matched DHCP Server Network Number for Address'' @ address)),
                   api1)
             else (Inr num, api1))"

section \<open>PPPoE server\<close>

text \<open>
  \<open>"(\d+) (.*?) (?:[\s\S]*?)service-name=\"(.*)\" interface=(.*) max-mtu=(.*) max-mru=(.*) (?:[\s\S]*?)authentication=(.*?) (?:[\s\S]*?)default-profile=(.*) "\<close>
\<close>

definition pppoe_server_pattern :: "token list" where
  "pppoe_server_pattern =
     [Group Digit Plus, Lit '' '', Group Dot StarLazy, Lit '' '', NonCap AnyChar StarLazy,
      Lit ''service-name=\"'', Group Dot Star, Lit ''\" interface='', Group Dot Star,
      Lit '' max-mtu='', Group Dot Star, Lit '' max-mru='', Group Dot Star, Lit '' '',
      NonCap AnyChar StarLazy, Lit ''authentication='', Group Dot StarLazy, Lit '' '',
      NonCap AnyChar StarLazy, Lit ''default-profile='', Group Dot Star, Lit '' '']"

definition pppoe_server_dict :: "string list \<Rightarrow> dict" where
  "pppoe_server_dict item =
     [''num'' \<mapsto> item ! 0,
      ''status'' \<mapsto>
         (if item ! 1 = ''X'' then ''disabled''
          else if item ! 1 = ''I'' then ''invalid''
          else if item ! 1 = ''XI'' then ''disabled and invalid''
          else ''enabled''),
      ''service_name'' \<mapsto> item ! 2, ''interface'' \<mapsto> item ! 3, ''max_mtu'' \<mapsto> item ! 4,
      ''max_mru'' \<mapsto> item ! 5, ''authentication'' \<mapsto> item ! 6,
      ''default_profile'' \<mapsto> item ! 7]"

definition get_pppoe_server :: "telnet \<Rightarrow> dict list \<times> telnet" where
  "get_pppoe_server api =
     (let cmd = ''/interface pppoe-server server print detail'';
          api1 = api_write cmd api;
          (raw, api2) = read_very_eager api1;
          rc = untag raw;
          pppoe_server_result = findall pppoe_server_pattern rc
      in (map pppoe_server_dict pppoe_server_result, api2))"

definition get_pppoe_server_number :: "string \<Rightarrow> telnet \<Rightarrow> (error + pyval) \<times> telnet" where
  "get_pppoe_server_number service_name api =
     (let (pppoe_server_list, api1) = get_pppoe_server api
      in case number_loop ''service_name'' service_name pppoe_server_list (PyInt (- 1)) of
           Inl e \<Rightarrow> (Inl e, api1)
         | Inr num \<Rightarrow>
             if num = PyInt (- 1)
             then (Inl (RosError (''No Matched PPPoE Server Number for Service Name ''
                                  @ service_name)), api1)
             else (Inr num, api1))"

definition add_pppoe_server ::
  "string \<Rightarrow> string \<Rightarrow> string \<Rightarrow> string \<Rightarrow> string \<Rightarrow> bool \<Rightarrow> telnet
     \<Rightarrow> (error + string) \<times> telnet" where
  "add_pppoe_server service_name interface default_profile max_mtu max_mru enabled api =
     (let enabled' = (if enabled then ''yes'' else ''no'');
          cmd = ''/ interface pppoe-server server add service-name='' @ service_name
                @ '' interface='' @ interface @ '' default-profile='' @ default_profile
                @ '' max-mtu='' @ max_mtu @ '' max-mru='' @ max_mru @ '' disabled='' @ enabled';
          api1 = api_write cmd api;
          (rc, api2) = read_very_eager api1
      in (check_result ''Add PPPoE Server'' rc, api2))"

text \<open>
  The two loops of \<open>set_pppoe_server_dns\<close>. The first assigns \<open>service_name\<close> only in
  an iteration whose record has the number asked for; \<open>None\<close> is the variable still
  unassigned. The second compares every record's name with \<open>service_name\<close>, and reading
  the unassigned variable raises.
\<close>

fun service_name_loop :: "string \<Rightarrow> dict list \<Rightarrow> string option \<Rightarrow> error + string option" where
  "service_name_loop numbers [] service_name = Inr service_name"
| "service_name_loop numbers (server # servers) service_name =
     (case getitem server ''num'' of
        Inl e \<Rightarrow> Inl e
      | Inr n \<Rightarrow>
          if n = numbers
          then (case getitem server ''service_name'' of
                  Inl e \<Rightarrow> Inl e
                | Inr v \<Rightarrow> service_name_loop numbers servers (Some v))
          else service_name_loop numbers servers service_name)"

fun profile_name_loop :: "string option \<Rightarrow> dict list \<Rightarrow> string option \<Rightarrow> error + string option" where
  "profile_name_loop service_name [] profile_name = Inr profile_name"
| "profile_name_loop service_name (server # servers) profile_name =
     (case getitem server ''service_name'' of
        Inl e \<Rightarrow> Inl e
      | Inr v \<Rightarrow>
          (case service_name of
             None \<Rightarrow> Inl (UnboundLocalError ''service_name'')
           | Some name \<Rightarrow>
               if v = name
               then (case getitem server ''default_profile'' of
                       Inl e \<Rightarrow> Inl e
                     | Inr p \<Rightarrow> profile_name_loop service_name servers (Some p))
               else profile_name_loop service_name servers profile_name))"

text \<open>
  \<open>if profile_name:\<close> holds for a string that is not empty; \<open>None\<close> and the empty
  string take the \<open>else\<close> branch, whose message reads \<open>service_name\<close> again.
\<close>

definition set_pppoe_server_dns :: "string \<Rightarrow> string \<Rightarrow> telnet \<Rightarrow> (error + string) \<times> telnet" where
  "set_pppoe_server_dns numbers new_dns api =
     (let (servers, api1) = get_pppoe_server api
      in case service_name_loop numbers servers None of
           Inl e \<Rightarrow> (Inl e, api1)
         | Inr service_name \<Rightarrow>
             (case profile_name_loop service_name servers None of
                Inl e \<Rightarrow> (Inl e, api1)
              | Inr profile_name \<Rightarrow>
                  if profile_name \<noteq> None \<and> profile_name \<noteq> Some []
                  then
                    (let cmd = ''/ppp profile set numbers='' @ the profile_name
                               @ '' dns-server='' @ new_dns;
                         api2 = api_write cmd api1;
                         (rc, api3) = read_very_eager api2
                     in (check_result ''Set PPPoE Server DNS'' rc, api3))
                  else
                    (case service_name of
                       None \<Rightarrow> (Inl (UnboundLocalError ''service_name''), api1)
                     | Some name \<Rightarrow>
                         (Inl (RosError (''No Matched PPPoE Server Profile for Service Name ''
                                         @ name)), api1))))"

text \<open>
  \<open>"name=\"(.*)\" local-address=(.*) remote-address=(.*?) (?:[\s\S]*?)use-encryption=(.*?) (?:[\s\S]*?)dns-server=(.*?) "\<close>
\<close>

definition profile_pattern :: "token list" where
  "profile_pattern =
     [Lit ''name=\"'', Group Dot Star, Lit ''\" local-address='', Group Dot Star,
      Lit '' remote-address='', Group Dot StarLazy, Lit '' '', NonCap AnyChar StarLazy,
      Lit ''use-encryption='', Group Dot StarLazy, Lit '' '', NonCap AnyChar StarLazy,
      Lit ''dns-server='', Group Dot StarLazy, Lit '' '']"

definition profile_dict :: "string list \<Rightarrow> dict" where
  "profile_dict item =
     [''name'' \<mapsto> item ! 0, ''local_address'' \<mapsto> item ! 1, ''remote_address'' \<mapsto> item ! 2,
      ''use_encryption'' \<mapsto> item ! 3, ''dns_server'' \<mapsto> item ! 4]"

definition get_ppp_profile :: "telnet \<Rightarrow> dict list \<times> telnet" where
  "get_ppp_profile api =
     (let cmd = ''/ppp profile print without-paging'';
          api1 = api_write cmd api;
          (raw, api2) = read_very_eager api1;
          rc = untag raw;
          profile_result = findall profile_pattern rc
      in (map profile_dict profile_result, api2))"

text \<open>
  \<open>"(\d+) (.*?) name=\"(.*?)\" service=(.*?) (?:[\s\S]*?)password=\"(.*)\"(?:[\s\S]*?)profile=(.*?) "\<close>
\<close>

definition secret_pattern :: "token list" where
  "secret_pattern =
     [Group Digit Plus, Lit '' '', Group Dot StarLazy, Lit '' name=\"'', Group Dot StarLazy,
      Lit ''\" service='', Group Dot StarLazy, Lit '' '', NonCap AnyChar StarLazy,
      Lit ''password=\"'', Group Dot Star, Lit ''\"'', NonCap AnyChar StarLazy,
      Lit ''profile='', Group Dot StarLazy, Lit '' '']"

definition secret_dict :: "string list \<Rightarrow> dict" where
  "secret_dict item =
     [''num'' \<mapsto> item ! 0,
      ''status'' \<mapsto> (if item ! 1 = ''X'' then ''disabled'' else ''enabled''),
      ''name'' \<mapsto> item ! 2, ''service'' \<mapsto> item ! 3, ''password'' \<mapsto> item ! 4,
      ''profile'' \<mapsto> item ! 5]"

definition get_ppp_secret :: "telnet \<Rightarrow> dict list \<times> telnet" where
  "get_ppp_secret api =
     (let cmd = ''/ppp secret print detail'';
          api1 = api_write cmd api;
          (raw, api2) = read_very_eager api1;
          rc = untag raw;
          secret_result = findall secret_pattern rc
      in (map secret_dict secret_result, api2))"

definition add_ppp_secret ::
  "string \<Rightarrow> string \<Rightarrow> string \<Rightarrow> string \<Rightarrow> bool \<Rightarrow> telnet \<Rightarrow> (error + string) \<times> telnet" where
  "add_ppp_secret secret_name service_name profile_name password enabled api =
     (let enabled' = (if enabled then ''no'' else ''yes'');
          cmd = ''/ppp secret add name='' @ secret_name @ '' service='' @ service_name
                @ '' profile='' @ profile_name @ '' password='' @ password
                @ '' disabled='' @ enabled';
          api1 = api_write cmd api;
          (rc, api2) = read_very_eager api1
      in (check_result ''Add PPPoE Server Secret'' rc, api2))"

definition get_ppp_secret_number :: "string \<Rightarrow> telnet \<Rightarrow> (error + pyval) \<times> telnet" where
  "get_ppp_secret_number secret_name api =
     (let (secret_list, api1) = get_ppp_secret api
      in case number_loop ''name'' secret_name secret_list (PyInt (- 1)) of
           Inl e \<Rightarrow> (Inl e, api1)
         | Inr num \<Rightarrow>
             if num = PyInt (- 1)
             then (Inl (RosError (''No Matched PPP Secret Number for Secret Name ''
                                  @ secret_name)), api1)
             else (Inr num, api1))"

section \<open>Notions used in the statements\<close>

text \<open>The command given to the last \<open>write\<close>, without the carriage return behind it.\<close>

definition last_command :: "telnet \<Rightarrow> string" where
  "last_command api = butlast (last (written api))"

text \<open>
  A block of console output: one of the six control sequences, or one character other
  than the escape character. A text made of blocks is one in which every escape
  character begins a control sequence that \<open>untag\<close> knows.
\<close>

definition block :: "string \<Rightarrow> bool" where
  "block b \<longleftrightarrow> b \<in> set control_sequences \<or> (length b = 1 \<and> hd b \<noteq> ESC)"

text \<open>
  The status-flag codes of the records that \<open>get_pppoe_server\<close> and
  \<open>get_ppp_secret\<close> extract from the next chunk: the second group of each match.
\<close>

definition pppoe_server_codes :: "telnet \<Rightarrow> string list" where
  "pppoe_server_codes api =
     map (\<lambda>item. item ! 1) (findall pppoe_server_pattern (untag (fst (read_very_eager api))))"

definition secret_codes :: "telnet \<Rightarrow> string list" where
  "secret_codes api =
     map (\<lambda>item. item ! 1) (findall secret_pattern (untag (fst (read_very_eager api))))"

text \<open>
  The failure marker as the pattern of \<open>check_result\<close> has it: carriage return,
  newline, carriage return, then a message without a newline, then newline and
  carriage return, at the front of the text.
\<close>

definition failure_marker_at :: "string \<Rightarrow> string \<Rightarrow> bool" where
  "failure_marker_at s msg \<longleftrightarrow> LF \<notin> set msg \<and> prefix ([CR, LF, CR] @ msg @ [LF, CR]) s"

text \<open>
  The failure marker in the words of the specification: two carriage returns, arbitrary
  text, then newline and carriage return.
\<close>

definition spec_failure_marker_at :: "string \<Rightarrow> string \<Rightarrow> bool" where
  "spec_failure_marker_at s msg \<longleftrightarrow> prefix ([CR, CR] @ msg @ [LF, CR]) s"

section \<open>Console output used in the examples\<close>

text \<open>
  A connection on which nothing has been written and whose next chunk of output is the
  given text.
\<close>

definition answering :: "string \<Rightarrow> telnet" where
  "answering text = \<lparr>written = [], incoming = [text]\<rparr>"

text \<open>A connection whose peer sends nothing.\<close>

definition silent :: telnet where
  "silent = \<lparr>written = [], incoming = []\<rparr>"

text \<open>Two address-pool lines, each with the space the console prints after the last value.\<close>

definition pool_fixture :: string where
  "pool_fixture =
     ''name=\"pppoe\" ranges=192.168.100.201-192.168.100.250 '' @ [LF]
     @ ''name=\"static\" ranges=192.168.2.1-192.168.2.100 '' @ [LF]"

text \<open>The same two entries as the console prints them: row numbers, and lines that end with carriage return and newline.\<close>

definition pool_console_fixture :: string where
  "pool_console_fixture =
     '' 0 name=\"pppoe\" ranges=192.168.100.201-192.168.100.250 '' @ [CR, LF, CR, LF]
     @ '' 1 name=\"static\" ranges=192.168.2.1-192.168.2.100 '' @ [CR, LF, CR, LF]"

text \<open>The two address-pool lines with nothing behind the ranges value.\<close>

definition pool_bare_fixture :: string where
  "pool_bare_fixture =
     ''name=\"pppoe\" ranges=192.168.100.201-192.168.100.250'' @ [LF]
     @ ''name=\"static\" ranges=192.168.2.1-192.168.2.100'' @ [LF]"

text \<open>Two PPPoE servers of one service name, the first disabled, the second enabled.\<close>

definition pppoe_fixture :: string where
  "pppoe_fixture =
     '' 0 X  service-name=\"svc\" interface=ether1 max-mtu=auto max-mru=auto '' @ [CR, LF]
     @ ''      authentication=pap default-profile=default '' @ [CR, LF]
     @ '' 1    service-name=\"svc\" interface=ether2 max-mtu=auto max-mru=auto '' @ [CR, LF]
     @ ''      authentication=pap default-profile=p1 '' @ [CR, LF]"

text \<open>Two PPPoE servers, flagged invalid, and disabled and invalid.\<close>

definition pppoe_invalid_fixture :: string where
  "pppoe_invalid_fixture =
     '' 0 I  service-name=\"svc\" interface=ether1 max-mtu=auto max-mru=auto '' @ [CR, LF]
     @ ''      authentication=pap default-profile=default '' @ [CR, LF]
     @ '' 1 XI service-name=\"web\" interface=ether2 max-mtu=auto max-mru=auto '' @ [CR, LF]
     @ ''      authentication=pap default-profile=p1 '' @ [CR, LF]"

text \<open>A PPPoE server whose flag column holds a letter that is none of the known codes.\<close>

definition pppoe_dynamic_fixture :: string where
  "pppoe_dynamic_fixture =
     '' 0 D  service-name=\"svc\" interface=ether1 max-mtu=auto max-mru=auto '' @ [CR, LF]
     @ ''      authentication=pap default-profile=default '' @ [CR, LF]"

text \<open>Three PPP secrets, the first and the last of one name.\<close>

definition secret_fixture :: string where
  "secret_fixture =
     '' 0 X name=\"alice\" service=pppoe password=\"pw1\" profile=default '' @ [CR, LF]
     @ '' 1   name=\"bob\" service=pppoe password=\"pw2\" profile=p1 '' @ [CR, LF]
     @ '' 2 I name=\"alice\" service=any password=\"pw3\" profile=p2 '' @ [CR, LF]"

text \<open>One DHCP server network.\<close>

definition network_fixture :: string where
  "network_fixture =
     '' 0 address=10.0.0.0/8 gateway=10.0.0.1 netmask=255.0.0.0 dns-server=8.8.8.8 ''
     @ [CR, LF]"

text \<open>One DHCP lease.\<close>

definition client_fixture :: string where
  "client_fixture =
     '' 0 D address=192.168.8.191 mac-address=48:4D:7E:B2:A7:1C server=test host-name=\"PC-FX008685\" ''
     @ [CR, LF]"

text \<open>
  The answer to a command that failed twice: behind the prompt, two failure lines.
\<close>

definition failure_fixture :: string where
  "failure_fixture =
     ''>'' @ [CR, LF, CR] @ ''no such item'' @ [LF, CR]
     @ [CR, LF, CR] @ ''second failure'' @ [LF, CR]"

text \<open>Two carriage returns, a message, newline and carriage return.\<close>

definition two_cr_fixture :: string where
  "two_cr_fixture = [CR, CR] @ ''no such item'' @ [LF, CR]"

text \<open>A marker whose text runs over two lines.\<close>

definition two_line_fixture :: string where
  "two_line_fixture = [CR, LF, CR] @ ''no such'' @ [LF] @ ''item'' @ [LF, CR]"

section \<open>Properties\<close>

subsection \<open>The groups of a match\<close>

text \<open>
  Every match has one text for each capturing group of its pattern and covers no more
  than the text that is left, so the indices that the extractors read are in range.
\<close>

lemma rmatch_arity:
  "rmatch ts s = Some (caps, n) \<Longrightarrow> length caps = groups ts \<and> n \<le> length s"
  and rep_arity:
  "rep cl q ts s = Some (m, caps, n) \<Longrightarrow> length caps = groups ts \<and> length m + n \<le> length s"
proof (induction ts s and cl q ts s arbitrary: caps n and m caps n rule: rmatch_rep.induct)
  case (1 s)
  then show ?case by simp
next
  case (2 l ts s)
  from 2(2) obtain k where take: "take (length l) s = l"
    and r: "rmatch ts (drop (length l) s) = Some (caps, k)" and n: "n = length l + k"
    by (auto split: if_splits)
  from 2(1) [OF take r] have "length caps = groups ts" "k \<le> length s - length l"
    by simp_all
  moreover from take have "length l \<le> length s"
    by (metis length_take min.cobounded1 min.commute)
  ultimately show ?case using n by simp
next
  case (3 cl q ts s)
  from 3(2) obtain m cs k where "rep cl q ts s = Some (m, cs, k)" "caps = m # cs" "n = length m + k"
    by auto
  with 3(1) show ?case by fastforce
next
  case (4 cl q ts s)
  from 4(2) obtain m k where "rep cl q ts s = Some (m, caps, k)" "n = length m + k"
    by auto
  with 4(1) show ?case by fastforce
next
  case (5 cl ts)
  then show ?case by simp
next
  case (6 cl ts c cs)
  from 6(2) have "in_class cl c" "rmatch ts cs = Some (caps, n)" "m = [c]"
    by (auto split: if_splits)
  with 6(1) show ?case by fastforce
next
  case (7 cl ts)
  then show ?case by simp
next
  case (8 cl ts c cs)
  from 8(2) obtain m' where "in_class cl c" "rep cl Star ts cs = Some (m', caps, n)" "m = c # m'"
    by (auto split: if_splits)
  with 8(1) show ?case by fastforce
next
  case (9 cl ts)
  from 9(2) have "rmatch ts [] = Some (caps, n)" "m = []" by auto
  with 9(1) show ?case by fastforce
next
  case (10 cl ts c cs)
  show ?case
  proof (cases "in_class cl c")
    case True
    show ?thesis
    proof (cases "rep cl Star ts cs")
      case None
      with True 10(4) have "rmatch ts (c # cs) = Some (caps, n)" "m = []" by auto
      with 10(2) [OF True None] show ?thesis by fastforce
    next
      case (Some r)
      with True 10(4) obtain m' where "rep cl Star ts cs = Some (m', caps, n)" "m = c # m'"
        by (cases r) auto
      with 10(1) [OF True] show ?thesis by fastforce
    qed
  next
    case False
    with 10(4) have "rmatch ts (c # cs) = Some (caps, n)" "m = []" by auto
    with 10(3) [OF False] show ?thesis by fastforce
  qed
next
  case (11 cl ts)
  from 11(2) have "rmatch ts [] = Some (caps, n)" "m = []" by auto
  with 11(1) show ?case by fastforce
next
  case (12 cl ts c cs)
  show ?case
  proof (cases "rmatch ts (c # cs)")
    case None
    with 12(3) obtain m' where "in_class cl c" "rep cl StarLazy ts cs = Some (m', caps, n)"
      "m = c # m'"
      by (auto split: if_splits)
    with 12(2) [OF None] show ?thesis by fastforce
  next
    case (Some r)
    with 12(3) have "rmatch ts (c # cs) = Some (caps, n)" "m = []" by auto
    with 12(1) show ?thesis by fastforce
  qed
qed

lemma findall_arity: "caps \<in> set (findall p s) \<Longrightarrow> length caps = groups p"
proof (induction p s rule: findall.induct)
  case (1 p)
  then show ?case by (auto split: option.splits dest: rmatch_arity [OF sym])
next
  case (2 p c cs)
  show ?case
  proof (cases "rmatch p (c # cs)")
    case None
    with 2 show ?thesis by simp
  next
    case (Some r)
    obtain caps' n where r: "r = (caps', n)" by (cases r)
    with Some 2(3) have "caps = caps' \<or> caps \<in> set (findall p (drop (n - 1) cs))"
      by simp
    then show ?thesis
    proof
      assume "caps = caps'"
      with Some r rmatch_arity show ?thesis by blast
    next
      assume mem: "caps \<in> set (findall p (drop (n - 1) cs))"
      from Some r have "rmatch p (c # cs) = Some (caps', n)" by simp
      from 2(2) [OF this refl mem] show ?thesis .
    qed
  qed
qed

lemma pattern_arities:
  "groups failure_pattern = 1" "groups pool_pattern = 2" "groups client_pattern = 4"
  "groups network_pattern = 5" "groups pppoe_server_pattern = 8"
  "groups profile_pattern = 5" "groups secret_pattern = 6"
  by (simp_all add: failure_pattern_def pool_pattern_def client_pattern_def network_pattern_def
      pppoe_server_pattern_def profile_pattern_def secret_pattern_def)

subsection \<open>Replacement and untag\<close>

lemma contains_Nil [simp]: "contains [] s"
  by (cases s) simp_all

lemma replace_absent: "\<not> contains old s \<Longrightarrow> replace old [] s = s"
  by (induction s) auto

lemma length_replace_le: "length (replace old [] s) \<le> length s"
proof (induction old "[] :: string" s rule: replace.induct)
  case (1 old)
  then show ?case by simp
next
  case (2 old c cs)
  then show ?case by (auto intro: le_trans [OF _ diff_le_self] le_SucI)
qed

lemma replace_present_shorter:
  "old \<noteq> [] \<Longrightarrow> contains old s \<Longrightarrow> length (replace old [] s) < length s"
proof (induction s)
  case Nil
  then show ?case by simp
next
  case (Cons c cs)
  show ?case
  proof (cases "take (length old) (c # cs) = old")
    case True
    have "length (replace old [] (drop (length old - 1) cs)) \<le> length cs"
      using length_replace_le [of old "drop (length old - 1) cs"] by simp
    with True Cons.prems(1) show ?thesis by simp
  next
    case False
    with Cons show ?thesis by auto
  qed
qed

lemma contains_hd: "contains old s \<Longrightarrow> old \<noteq> [] \<Longrightarrow> hd old \<in> set s"
proof (induction s)
  case Nil
  then show ?case by simp
next
  case (Cons c cs)
  show ?case
  proof (cases "take (length old) (c # cs) = old")
    case True
    with Cons.prems(2) have "hd old = c" by (cases old) auto
    then show ?thesis by simp
  next
    case False
    with Cons show ?thesis by auto
  qed
qed

lemma untag_no_escape: "ESC \<notin> set s \<Longrightarrow> untag s = s"
proof -
  assume no: "ESC \<notin> set s"
  have "\<not> contains (ESC # p) s" for p
    using contains_hd [of "ESC # p" s] no by auto
  then show ?thesis by (simp add: untag_def replace_absent)
qed

subsection \<open>The connection\<close>

lemma read_after_write:
  "read_very_eager (api_write cmd api)
     = (fst (read_very_eager api), api_write cmd (snd (read_very_eager api)))"
  by (cases "incoming api") (simp_all add: read_very_eager_def api_write_def)

lemma read_answering [simp]: "fst (read_very_eager (answering text)) = text"
  by (simp add: read_very_eager_def answering_def)

lemma read_silent [simp]: "fst (read_very_eager silent) = []"
  by (simp add: read_very_eager_def silent_def)

lemma written_read [simp]: "written (snd (read_very_eager api)) = written api"
  by (cases "incoming api") (simp_all add: read_very_eager_def)

lemma fst_get_address_pool:
  "fst (get_address_pool api)
     = map (\<lambda>pool. (pool ! 0, pool ! 1)) (findall pool_pattern (untag (fst (read_very_eager api))))"
  by (simp add: get_address_pool_def read_after_write Let_def)

lemma fst_get_dhcp_server_client:
  "fst (get_dhcp_server_client api)
     = map client_dict (findall client_pattern (untag (fst (read_very_eager api))))"
  by (simp add: get_dhcp_server_client_def read_after_write Let_def)

lemma fst_get_dhcp_server_network:
  "fst (get_dhcp_server_network api)
     = map network_dict (findall network_pattern (untag (fst (read_very_eager api))))"
  by (simp add: get_dhcp_server_network_def read_after_write Let_def)

lemma fst_get_pppoe_server:
  "fst (get_pppoe_server api)
     = map pppoe_server_dict (findall pppoe_server_pattern (untag (fst (read_very_eager api))))"
  by (simp add: get_pppoe_server_def read_after_write Let_def)

lemma fst_get_ppp_profile:
  "fst (get_ppp_profile api)
     = map profile_dict (findall profile_pattern (untag (fst (read_very_eager api))))"
  by (simp add: get_ppp_profile_def read_after_write Let_def)

lemma fst_get_ppp_secret:
  "fst (get_ppp_secret api)
     = map secret_dict (findall secret_pattern (untag (fst (read_very_eager api))))"
  by (simp add: get_ppp_secret_def read_after_write Let_def)

subsection \<open>Sanitization\<close>

lemma untag_fixed_iff:
  "untag y = y \<longleftrightarrow> \<not> (\<exists>p\<in>set control_sequences. contains p y)"
proof
  assume fixed: "untag y = y"
  define y1 where "y1 = replace (ESC # ''[m'') [] y"
  define y2 where "y2 = replace (ESC # ''[32m'') [] y1"
  define y3 where "y3 = replace (ESC # ''[1m'') [] y2"
  define y4 where "y4 = replace (ESC # ''[31;1m'') [] y3"
  define y5 where "y5 = replace (ESC # ''[K'') [] y4"
  define y6 where "y6 = replace (ESC # ''[36m'') [] y5"
  have le: "length y6 \<le> length y5" "length y5 \<le> length y4" "length y4 \<le> length y3"
    "length y3 \<le> length y2" "length y2 \<le> length y1" "length y1 \<le> length y"
    unfolding y1_def y2_def y3_def y4_def y5_def y6_def by (rule length_replace_le)+
  have "y6 = y"
    using fixed unfolding untag_def y1_def y2_def y3_def y4_def y5_def y6_def by simp
  with le have len: "length y1 = length y" "length y2 = length y1" "length y3 = length y2"
    "length y4 = length y3" "length y5 = length y4" "length y6 = length y5" by auto
  have n1: "\<not> contains (ESC # ''[m'') y"
    using replace_present_shorter [of "ESC # ''[m''" y] len(1) unfolding y1_def by auto
  then have e1: "y1 = y" unfolding y1_def by (rule replace_absent)
  have n2: "\<not> contains (ESC # ''[32m'') y1"
    using replace_present_shorter [of "ESC # ''[32m''" y1] len(2) unfolding y2_def by auto
  then have e2: "y2 = y1" unfolding y2_def by (rule replace_absent)
  have n3: "\<not> contains (ESC # ''[1m'') y2"
    using replace_present_shorter [of "ESC # ''[1m''" y2] len(3) unfolding y3_def by auto
  then have e3: "y3 = y2" unfolding y3_def by (rule replace_absent)
  have n4: "\<not> contains (ESC # ''[31;1m'') y3"
    using replace_present_shorter [of "ESC # ''[31;1m''" y3] len(4) unfolding y4_def by auto
  then have e4: "y4 = y3" unfolding y4_def by (rule replace_absent)
  have n5: "\<not> contains (ESC # ''[K'') y4"
    using replace_present_shorter [of "ESC # ''[K''" y4] len(5) unfolding y5_def by auto
  then have e5: "y5 = y4" unfolding y5_def by (rule replace_absent)
  have n6: "\<not> contains (ESC # ''[36m'') y5"
    using replace_present_shorter [of "ESC # ''[36m''" y5] len(6) unfolding y6_def by auto
  from n1 n2 n3 n4 n5 n6 e1 e2 e3 e4 e5
  show "\<not> (\<exists>p\<in>set control_sequences. contains p y)"
    by (simp add: control_sequences_def)
next
  assume "\<not> (\<exists>p\<in>set control_sequences. contains p y)"
  then show "untag y = y"
    by (simp add: control_sequences_def untag_def replace_absent)
qed

text \<open>
  C2, as the specification states it, fails: removing \<open>ESC[m\<close> from the middle of
  \<open>ESC[ ESC[m m\<close> leaves \<open>ESC[m\<close>, which the later replacements do not touch, and
  which a second pass removes.
\<close>

theorem untag_not_idempotent:
  "untag (ESC # ''['' @ ESC # ''[mm'') = ESC # ''[m''
   \<and> untag (untag (ESC # ''['' @ ESC # ''[mm'')) = []
   \<and> untag (untag (ESC # ''['' @ ESC # ''[mm'')) \<noteq> untag (ESC # ''['' @ ESC # ''[mm'')"
  by (simp add: untag_def)

text \<open>
  On a text made of blocks every replacement removes the blocks that are its sequence
  and nothing else, so \<open>untag\<close> removes exactly the control sequences.
\<close>

lemma replace_skip:
  "old \<noteq> [] \<Longrightarrow> hd old \<notin> set u \<Longrightarrow> replace old [] (u @ s) = u @ replace old [] s"
proof (induction u)
  case Nil
  then show ?case by simp
next
  case (Cons c u)
  from Cons.prems have "take (length old) (c # u @ s) \<noteq> old"
    by (cases old) auto
  with Cons show ?case by simp
qed

lemma replace_prefix: "old \<noteq> [] \<Longrightarrow> replace old [] (old @ s) = replace old [] s"
  by (cases old) simp_all

lemma other_sequence_kept:
  assumes "p \<in> set control_sequences" and "q \<in> set control_sequences" and "q \<noteq> p"
  shows "replace p [] (q @ s) = q @ replace p [] s"
  using assms by (auto simp: control_sequences_def)

lemma replace_blocks:
  assumes "\<forall>b\<in>set bs. block b" and "p \<in> set control_sequences"
  shows "replace p [] (concat bs) = concat (filter (\<lambda>b. b \<noteq> p) bs)"
  using assms(1)
proof (induction bs)
  case Nil
  from assms(2) show ?case by (auto simp: control_sequences_def)
next
  case (Cons b bs)
  from assms(2) have p: "p \<noteq> []" "hd p = ESC" "length p \<noteq> 1"
    by (auto simp: control_sequences_def)
  from Cons have IH: "replace p [] (concat bs) = concat (filter (\<lambda>b. b \<noteq> p) bs)"
    by simp
  from Cons.prems have "block b" by simp
  then consider "b = p" | "b \<in> set control_sequences" "b \<noteq> p" | "length b = 1" "hd b \<noteq> ESC"
    unfolding block_def by blast
  then show ?case
  proof cases
    case 1
    with p IH show ?thesis by (simp add: replace_prefix)
  next
    case 2
    with assms(2) IH show ?thesis by (simp add: other_sequence_kept)
  next
    case 3
    then obtain c where b: "b = [c]" "c \<noteq> ESC"
      by (cases b) auto
    with p have "hd p \<notin> set b" "b \<noteq> p" by auto
    with p IH show ?thesis by (simp add: replace_skip)
  qed
qed

lemma untag_blocks:
  assumes "\<forall>b\<in>set bs. block b"
  shows "untag (concat bs) = concat (filter (\<lambda>b. b \<notin> set control_sequences) bs)"
proof -
  have step: "replace p [] (concat (filter P bs)) = concat (filter (\<lambda>b. P b \<and> b \<noteq> p) bs)"
    if "p \<in> set control_sequences" for p P
    using replace_blocks [of "filter P bs" p] assms that by simp
  have first: "replace p [] (concat bs) = concat (filter (\<lambda>b. b \<noteq> p) bs)"
    if "p \<in> set control_sequences" for p
    using replace_blocks [of bs p] assms that by simp
  show ?thesis
    unfolding untag_def
    by (simp add: first step control_sequences_def conj_ac)
qed

lemma untag_blocks_idempotent:
  assumes "\<forall>b\<in>set bs. block b"
  shows "untag (untag (concat bs)) = untag (concat bs)"
proof -
  define cs where "cs = filter (\<lambda>b. b \<notin> set control_sequences) bs"
  have "\<forall>b\<in>set cs. block b" and "filter (\<lambda>b. b \<notin> set control_sequences) cs = cs"
    using assms by (simp_all add: cs_def)
  with untag_blocks [of cs] have "untag (concat cs) = concat cs" by simp
  with untag_blocks [OF assms] show ?thesis by (simp add: cs_def)
qed

text \<open>
  C2, amended: sanitization is idempotent at exactly the inputs whose sanitized text
  contains none of the six control sequences; \<open>untag (untag x) = untag x\<close> holds if
  and only if no control sequence occurs in \<open>untag x\<close>. In particular it is idempotent
  on every text in which each escape character begins one of the six control sequences:
  there \<open>untag\<close> removes exactly those sequences.
\<close>

theorem untag_idempotent_iff:
  "(untag (untag x) = untag x \<longleftrightarrow> \<not> (\<exists>p\<in>set control_sequences. contains p (untag x)))
   \<and> ((\<forall>b\<in>set bs. block b)
        \<longrightarrow> untag (concat bs) = concat (filter (\<lambda>b. b \<notin> set control_sequences) bs)
            \<and> untag (untag (concat bs)) = untag (concat bs))"
  using untag_fixed_iff [of "untag x"] untag_blocks [of bs] untag_blocks_idempotent [of bs]
  by blast

theorem untag_idempotent_iff_witness:
  "list_all block [ESC # ''[32m'', ''o'', ''k'', ESC # ''[m'']
   \<and> untag (ESC # ''[32mok'' @ ESC # ''[m'') = ''ok''
   \<and> untag (untag (ESC # ''[32mok'' @ ESC # ''[m'')) = untag (ESC # ''[32mok'' @ ESC # ''[m'')
   \<and> \<not> (\<exists>p\<in>set control_sequences. contains p (untag (ESC # ''[32mok'' @ ESC # ''[m'')))"
proof -
  have blocks: "\<forall>b\<in>set [ESC # ''[32m'', ''o'', ''k'', ESC # ''[m'']. block b"
    by (simp add: block_def control_sequences_def)
  from untag_idempotent_iff [of "ESC # ''[32mok'' @ ESC # ''[m''"
      "[ESC # ''[32m'', ''o'', ''k'', ESC # ''[m'']"] blocks
  have "untag (concat [ESC # ''[32m'', ''o'', ''k'', ESC # ''[m''])
          = concat (filter (\<lambda>b. b \<notin> set control_sequences)
                      [ESC # ''[32m'', ''o'', ''k'', ESC # ''[m''])"
    and "untag (untag (concat [ESC # ''[32m'', ''o'', ''k'', ESC # ''[m'']))
          = untag (concat [ESC # ''[32m'', ''o'', ''k'', ESC # ''[m''])"
    and "untag (untag (ESC # ''[32mok'' @ ESC # ''[m'')) = untag (ESC # ''[32mok'' @ ESC # ''[m'')
          \<longleftrightarrow> \<not> (\<exists>p\<in>set control_sequences.
                    contains p (untag (ESC # ''[32mok'' @ ESC # ''[m'')))"
    by blast+
  with blocks show ?thesis
    by (simp add: control_sequences_def list_all_iff)
qed

subsection \<open>The examples, evaluated\<close>

lemma untag_pool_fixture: "untag pool_fixture = pool_fixture"
  by (rule untag_no_escape) (simp add: pool_fixture_def)

lemma findall_pool_fixture:
  "findall pool_pattern pool_fixture =
     [[''pppoe'', ''192.168.100.201-192.168.100.250''],
      [''static'', ''192.168.2.1-192.168.2.100'']]"
  by code_simp

lemma untag_pool_console_fixture: "untag pool_console_fixture = pool_console_fixture"
  by (rule untag_no_escape) (simp add: pool_console_fixture_def)

lemma findall_pool_console_fixture:
  "findall pool_pattern pool_console_fixture =
     [[''pppoe'', ''192.168.100.201-192.168.100.250''],
      [''static'', ''192.168.2.1-192.168.2.100'']]"
  by code_simp

lemma untag_pool_bare_fixture: "untag pool_bare_fixture = pool_bare_fixture"
  by (rule untag_no_escape) (simp add: pool_bare_fixture_def)

lemma findall_pool_bare_fixture:
  "findall pool_pattern pool_bare_fixture =
     []"
  by code_simp

lemma untag_pppoe_fixture: "untag pppoe_fixture = pppoe_fixture"
  by (rule untag_no_escape) (simp add: pppoe_fixture_def)

lemma findall_pppoe_fixture:
  "findall pppoe_server_pattern pppoe_fixture =
     [[''0'', ''X'', ''svc'', ''ether1'', ''auto'', ''auto'', ''pap'', ''default''],
      [''1'', [], ''svc'', ''ether2'', ''auto'', ''auto'', ''pap'', ''p1'']]"
  by code_simp

lemma untag_pppoe_invalid_fixture: "untag pppoe_invalid_fixture = pppoe_invalid_fixture"
  by (rule untag_no_escape) (simp add: pppoe_invalid_fixture_def)

lemma findall_pppoe_invalid_fixture:
  "findall pppoe_server_pattern pppoe_invalid_fixture =
     [[''0'', ''I'', ''svc'', ''ether1'', ''auto'', ''auto'', ''pap'', ''default''],
      [''1'', ''XI'', ''web'', ''ether2'', ''auto'', ''auto'', ''pap'', ''p1'']]"
  by code_simp

lemma untag_pppoe_dynamic_fixture: "untag pppoe_dynamic_fixture = pppoe_dynamic_fixture"
  by (rule untag_no_escape) (simp add: pppoe_dynamic_fixture_def)

lemma findall_pppoe_dynamic_fixture:
  "findall pppoe_server_pattern pppoe_dynamic_fixture =
     [[''0'', ''D'', ''svc'', ''ether1'', ''auto'', ''auto'', ''pap'', ''default'']]"
  by code_simp

lemma untag_secret_fixture: "untag secret_fixture = secret_fixture"
  by (rule untag_no_escape) (simp add: secret_fixture_def)

lemma findall_secret_fixture:
  "findall secret_pattern secret_fixture =
     [[''0'', ''X'', ''alice'', ''pppoe'', ''pw1'', ''default''],
      [''1'', '' '', ''bob'', ''pppoe'', ''pw2'', ''p1''],
      [''2'', ''I'', ''alice'', ''any'', ''pw3'', ''p2'']]"
  by code_simp

lemma untag_network_fixture: "untag network_fixture = network_fixture"
  by (rule untag_no_escape) (simp add: network_fixture_def)

lemma findall_network_fixture:
  "findall network_pattern network_fixture =
     [[''0'', ''10.0.0.0/8'', ''10.0.0.1'', ''255.0.0.0'', ''8.8.8.8'']]"
  by code_simp

lemma untag_client_fixture: "untag client_fixture = client_fixture"
  by (rule untag_no_escape) (simp add: client_fixture_def)

lemma findall_client_fixture:
  "findall client_pattern client_fixture =
     [[''192.168.8.191'', ''48:4D:7E:B2:A7:1C'', ''test'', ''PC-FX008685'']]"
  by code_simp

subsection \<open>The commands that add an entity\<close>

lemma contains_prefix: "contains old (old @ post)"
proof (cases "old @ post")
  case Nil
  then show ?thesis by simp
next
  case (Cons a list)
  then have "take (length old) (a # list) = old"
    by (metis append_eq_conv_conj)
  with Cons show ?thesis by simp
qed

lemma contains_append: "contains old (pre @ old @ post)"
  by (induction pre) (simp_all add: contains_prefix)

lemma contains_appendI: "contains old s \<Longrightarrow> contains old (pre @ s)"
  by (induction pre) simp_all

lemma written_after_write:
  "last_command (snd (read_very_eager (api_write cmd api))) = cmd"
  by (simp add: read_after_write last_command_def) (simp add: api_write_def)

text \<open>
  C8: the command that \<open>add_pppoe_server\<close> writes contains \<open>disabled=yes\<close> when
  \<open>enabled\<close> is true and \<open>disabled=no\<close> when it is false (and ends with it); the
  commands of \<open>add_dhcp_server\<close> and \<open>add_ppp_secret\<close> end with the opposite,
  \<open>disabled=no\<close> when \<open>enabled\<close> is true and \<open>disabled=yes\<close> when it is false.
\<close>

theorem add_server_disabled_argument:
  "contains ''disabled=yes''
     (last_command (snd (add_pppoe_server service_name interface default_profile max_mtu max_mru True api)))
   \<and> suffix ''disabled=yes''
     (last_command (snd (add_pppoe_server service_name interface default_profile max_mtu max_mru True api)))
   \<and> contains ''disabled=no''
     (last_command (snd (add_pppoe_server service_name interface default_profile max_mtu max_mru False api)))
   \<and> suffix ''disabled=no''
     (last_command (snd (add_pppoe_server service_name interface default_profile max_mtu max_mru False api)))
   \<and> suffix ''disabled=no''
     (last_command (snd (add_dhcp_server name interface address_pool lease_time True api)))
   \<and> suffix ''disabled=yes''
     (last_command (snd (add_dhcp_server name interface address_pool lease_time False api)))
   \<and> suffix ''disabled=no''
     (last_command (snd (add_ppp_secret secret_name service_name profile_name password True api)))
   \<and> suffix ''disabled=yes''
     (last_command (snd (add_ppp_secret secret_name service_name profile_name password False api)))"
proof -
  have y: "suffix ''disabled=yes'' ('' disabled='' @ ''yes'')"
    and n: "suffix ''disabled=no'' ('' disabled='' @ ''no'')"
    by (rule suffixI [of _ "'' ''"], simp)+
  have cy: "contains ''disabled=yes'' ('' disabled='' @ ''yes'')"
    and cn: "contains ''disabled=no'' ('' disabled='' @ ''no'')"
    by simp_all
  show ?thesis
    unfolding add_pppoe_server_def add_dhcp_server_def add_ppp_secret_def Let_def split_def
      snd_conv written_after_write if_True if_False
    by (intro conjI y n cy cn suffix_appendI contains_appendI)
qed

subsection \<open>The result check\<close>

lemma check_result_cases:
  "check_result whr result = Inr (whr @ '' Success'')
   \<or> (\<exists>msg. check_result whr result = Inl (RosError (whr @ '' Failed, '' @ msg)))"
  by (cases "findall failure_pattern result") (simp_all add: check_result_def)







subsection \<open>The key sets of the records\<close>

lemma dom_client_dict: "dom (client_dict c) = {''ip'', ''mac'', ''server'', ''hostname''}"
  by (auto simp: client_dict_def)

lemma dom_network_dict:
  "dom (network_dict n) = {''num'', ''address'', ''gateway'', ''netmask'', ''dns_server''}"
  by (auto simp: network_dict_def)

lemma dom_pppoe_server_dict:
  "dom (pppoe_server_dict item)
     = {''num'', ''status'', ''service_name'', ''interface'', ''max_mtu'', ''max_mru'',
        ''authentication'', ''default_profile''}"
  by (auto simp: pppoe_server_dict_def)

lemma dom_profile_dict:
  "dom (profile_dict item)
     = {''name'', ''local_address'', ''remote_address'', ''use_encryption'', ''dns_server''}"
  by (auto simp: profile_dict_def)

lemma dom_secret_dict:
  "dom (secret_dict item)
     = {''num'', ''status'', ''name'', ''service'', ''password'', ''profile''}"
  by (auto simp: secret_dict_def)

text \<open>
  C7: all records of one extraction call have the same key set, whatever the text is:
  every DHCP lease record has exactly the keys \<open>ip\<close>, \<open>mac\<close>, \<open>server\<close>,
  \<open>hostname\<close>, every PPPoE server record exactly \<open>num\<close>, \<open>status\<close>,
  \<open>service_name\<close>, \<open>interface\<close>, \<open>max_mtu\<close>, \<open>max_mru\<close>,
  \<open>authentication\<close>, \<open>default_profile\<close>, and likewise the records of the DHCP
  networks, the PPP profiles and the PPP secrets.
\<close>

theorem records_have_the_same_keys:
  "(\<forall>r\<in>set (fst (get_dhcp_server_client api)).
      dom r = {''ip'', ''mac'', ''server'', ''hostname''})
   \<and> (\<forall>r\<in>set (fst (get_pppoe_server api)).
      dom r = {''num'', ''status'', ''service_name'', ''interface'', ''max_mtu'', ''max_mru'',
               ''authentication'', ''default_profile''})
   \<and> (\<forall>r\<in>set (fst (get_dhcp_server_network api)).
      dom r = {''num'', ''address'', ''gateway'', ''netmask'', ''dns_server''})
   \<and> (\<forall>r\<in>set (fst (get_ppp_profile api)).
      dom r = {''name'', ''local_address'', ''remote_address'', ''use_encryption'',
               ''dns_server''})
   \<and> (\<forall>r\<in>set (fst (get_ppp_secret api)).
      dom r = {''num'', ''status'', ''name'', ''service'', ''password'', ''profile''})"
  unfolding fst_get_dhcp_server_client fst_get_pppoe_server fst_get_dhcp_server_network
    fst_get_ppp_profile fst_get_ppp_secret
  by (simp add: dom_client_dict dom_network_dict dom_pppoe_server_dict
      dom_profile_dict dom_secret_dict)

theorem records_have_the_same_keys_witness:
  "length (fst (get_dhcp_server_client (answering client_fixture))) = 1
   \<and> dom (fst (get_dhcp_server_client (answering client_fixture)) ! 0)
       = {''ip'', ''mac'', ''server'', ''hostname''}
   \<and> length (fst (get_pppoe_server (answering pppoe_fixture))) = 2
   \<and> dom (fst (get_pppoe_server (answering pppoe_fixture)) ! 0)
       = {''num'', ''status'', ''service_name'', ''interface'', ''max_mtu'', ''max_mru'',
          ''authentication'', ''default_profile''}
   \<and> dom (fst (get_pppoe_server (answering pppoe_fixture)) ! 1)
       = dom (fst (get_pppoe_server (answering pppoe_fixture)) ! 0)
   \<and> length (fst (get_dhcp_server_network (answering network_fixture))) = 1
   \<and> dom (fst (get_dhcp_server_network (answering network_fixture)) ! 0)
       = {''num'', ''address'', ''gateway'', ''netmask'', ''dns_server''}
   \<and> length (fst (get_ppp_secret (answering secret_fixture))) = 3
   \<and> dom (fst (get_ppp_secret (answering secret_fixture)) ! 2)
       = {''num'', ''status'', ''name'', ''service'', ''password'', ''profile''}"
proof -
  have len: "length (fst (get_dhcp_server_client (answering client_fixture))) = 1"
    "length (fst (get_pppoe_server (answering pppoe_fixture))) = 2"
    "length (fst (get_dhcp_server_network (answering network_fixture))) = 1"
    "length (fst (get_ppp_secret (answering secret_fixture))) = 3"
    by (simp_all add: fst_get_dhcp_server_client fst_get_pppoe_server
        fst_get_dhcp_server_network fst_get_ppp_secret
        untag_client_fixture untag_pppoe_fixture untag_network_fixture untag_secret_fixture
        findall_client_fixture findall_pppoe_fixture findall_network_fixture
        findall_secret_fixture)
  show ?thesis
    using records_have_the_same_keys [of "answering client_fixture"]
      records_have_the_same_keys [of "answering pppoe_fixture"]
      records_have_the_same_keys [of "answering network_fixture"]
      records_have_the_same_keys [of "answering secret_fixture"]
    by (simp add: len all_set_conv_all_nth)
qed

subsection \<open>The lookup helpers\<close>

text \<open>
  The loop on records that all have the compared field and a number: it ends with the
  number of the last record whose field equals the key, and with the value it started
  from when there is none.
\<close>

lemma number_loop_last:
  assumes "\<forall>r\<in>set rs. r field \<noteq> None \<and> r ''num'' \<noteq> None"
  shows "number_loop field key rs num
           = Inr (case filter (\<lambda>r. r field = Some key) rs of
                    [] \<Rightarrow> num
                  | m # ms \<Rightarrow> PyStr (the (last (m # ms) ''num'')))"
  using assms
proof (induction rs arbitrary: num)
  case Nil
  then show ?case by simp
next
  case (Cons r rs)
  from Cons.prems obtain v n where r: "r field = Some v" "r ''num'' = Some n"
    by auto
  from Cons.prems have rest: "\<forall>r\<in>set rs. r field \<noteq> None \<and> r ''num'' \<noteq> None"
    by simp
  show ?case
  proof (cases "v = key")
    case True
    then show ?thesis
      using r Cons.IH [OF rest, of "PyStr n"]
      by (simp add: getitem_def split: list.splits)
  next
    case False
    then show ?thesis
      using r Cons.IH [OF rest, of num]
      by (simp add: getitem_def)
  qed
qed

lemma network_records_complete:
  "\<forall>r\<in>set (fst (get_dhcp_server_network api)). r ''address'' \<noteq> None \<and> r ''num'' \<noteq> None"
  by (simp add: fst_get_dhcp_server_network network_dict_def)

lemma pppoe_server_records_complete:
  "\<forall>r\<in>set (fst (get_pppoe_server api)).
     r ''service_name'' \<noteq> None \<and> r ''num'' \<noteq> None \<and> r ''default_profile'' \<noteq> None"
  by (simp add: fst_get_pppoe_server pppoe_server_dict_def)

lemma secret_records_complete:
  "\<forall>r\<in>set (fst (get_ppp_secret api)). r ''name'' \<noteq> None \<and> r ''num'' \<noteq> None"
  by (simp add: fst_get_ppp_secret secret_dict_def)

lemma fst_get_dhcp_server_network_number:
  "fst (get_dhcp_server_network_number address api)
     = (case filter (\<lambda>r. r ''address'' = Some address) (fst (get_dhcp_server_network api)) of
          [] \<Rightarrow> Inl (RosError (''No Matched DHCP Server Network Number for Address'' @ address))
        | m # ms \<Rightarrow> Inr (PyStr (the (last (m # ms) ''num''))))"
  using number_loop_last [OF network_records_complete [of api], of address "PyInt (- 1)"]
  by (simp add: get_dhcp_server_network_number_def split_def split: list.splits)

lemma fst_get_pppoe_server_number:
  "fst (get_pppoe_server_number service_name api)
     = (case filter (\<lambda>r. r ''service_name'' = Some service_name) (fst (get_pppoe_server api)) of
          [] \<Rightarrow> Inl (RosError (''No Matched PPPoE Server Number for Service Name ''
                               @ service_name))
        | m # ms \<Rightarrow> Inr (PyStr (the (last (m # ms) ''num''))))"
proof -
  have "\<forall>r\<in>set (fst (get_pppoe_server api)). r ''service_name'' \<noteq> None \<and> r ''num'' \<noteq> None"
    using pppoe_server_records_complete [of api] by simp
  from number_loop_last [OF this, of service_name "PyInt (- 1)"] show ?thesis
    by (simp add: get_pppoe_server_number_def split_def split: list.splits)
qed

lemma fst_get_ppp_secret_number:
  "fst (get_ppp_secret_number secret_name api)
     = (case filter (\<lambda>r. r ''name'' = Some secret_name) (fst (get_ppp_secret api)) of
          [] \<Rightarrow> Inl (RosError (''No Matched PPP Secret Number for Secret Name '' @ secret_name))
        | m # ms \<Rightarrow> Inr (PyStr (the (last (m # ms) ''num''))))"
  using number_loop_last [OF secret_records_complete [of api], of secret_name "PyInt (- 1)"]
  by (simp add: get_ppp_secret_number_def split_def split: list.splits)

lemma lookup_not_found:
  assumes "\<not> (\<exists>r\<in>set rs. r field = Some key)"
  shows "filter (\<lambda>r. r field = Some key) rs = []"
  using assms by (simp add: filter_empty_conv)

lemma lookup_found:
  assumes "\<exists>r\<in>set rs. r field = Some key" and "\<forall>r\<in>set rs. r ''num'' \<noteq> None"
  shows "\<exists>m ms. filter (\<lambda>r. r field = Some key) rs = m # ms
           \<and> (\<exists>r\<in>set rs. \<exists>n. r field = Some key \<and> r ''num'' = Some n
                  \<and> the (last (m # ms) ''num'') = n)"
proof -
  from assms(1) have "filter (\<lambda>r. r field = Some key) rs \<noteq> []"
    by (simp add: filter_empty_conv)
  then obtain m ms where ms: "filter (\<lambda>r. r field = Some key) rs = m # ms"
    by (cases "filter (\<lambda>r. r field = Some key) rs") auto
  have "last (m # ms) \<in> set (filter (\<lambda>r. r field = Some key) rs)"
    unfolding ms by (rule last_in_set) simp
  then have in_rs: "last (m # ms) \<in> set rs" and key: "last (m # ms) field = Some key"
    by auto
  from in_rs assms(2) obtain n where "last (m # ms) ''num'' = Some n"
    by auto
  with in_rs key ms show ?thesis
    by (intro exI conjI bexI [of _ "last (m # ms)"]) auto
qed

text \<open>
  C6: each of the three lookup helpers raises its "not found" \<open>RosError\<close> when no
  extracted record has the lookup field equal to the argument, and otherwise returns the
  number of a record whose lookup field equals the argument.
\<close>

theorem lookup_helpers_not_found_or_number:
  "(\<not> (\<exists>r\<in>set (fst (get_dhcp_server_network api)). r ''address'' = Some address)
      \<longrightarrow> fst (get_dhcp_server_network_number address api)
            = Inl (RosError (''No Matched DHCP Server Network Number for Address'' @ address)))
   \<and> ((\<exists>r\<in>set (fst (get_dhcp_server_network api)). r ''address'' = Some address)
      \<longrightarrow> (\<exists>r\<in>set (fst (get_dhcp_server_network api)). \<exists>n.
             r ''address'' = Some address \<and> r ''num'' = Some n
             \<and> fst (get_dhcp_server_network_number address api) = Inr (PyStr n)))
   \<and> (\<not> (\<exists>r\<in>set (fst (get_pppoe_server api)). r ''service_name'' = Some service_name)
      \<longrightarrow> fst (get_pppoe_server_number service_name api)
            = Inl (RosError (''No Matched PPPoE Server Number for Service Name ''
                             @ service_name)))
   \<and> ((\<exists>r\<in>set (fst (get_pppoe_server api)). r ''service_name'' = Some service_name)
      \<longrightarrow> (\<exists>r\<in>set (fst (get_pppoe_server api)). \<exists>n.
             r ''service_name'' = Some service_name \<and> r ''num'' = Some n
             \<and> fst (get_pppoe_server_number service_name api) = Inr (PyStr n)))
   \<and> (\<not> (\<exists>r\<in>set (fst (get_ppp_secret api)). r ''name'' = Some secret_name)
      \<longrightarrow> fst (get_ppp_secret_number secret_name api)
            = Inl (RosError (''No Matched PPP Secret Number for Secret Name '' @ secret_name)))
   \<and> ((\<exists>r\<in>set (fst (get_ppp_secret api)). r ''name'' = Some secret_name)
      \<longrightarrow> (\<exists>r\<in>set (fst (get_ppp_secret api)). \<exists>n.
             r ''name'' = Some secret_name \<and> r ''num'' = Some n
             \<and> fst (get_ppp_secret_number secret_name api) = Inr (PyStr n)))"
proof (intro conjI impI)
  assume "\<not> (\<exists>r\<in>set (fst (get_dhcp_server_network api)). r ''address'' = Some address)"
  from lookup_not_found [OF this]
  show "fst (get_dhcp_server_network_number address api)
          = Inl (RosError (''No Matched DHCP Server Network Number for Address'' @ address))"
    by (simp add: fst_get_dhcp_server_network_number)
next
  assume "\<exists>r\<in>set (fst (get_dhcp_server_network api)). r ''address'' = Some address"
  from lookup_found [OF this] network_records_complete [of api]
  show "\<exists>r\<in>set (fst (get_dhcp_server_network api)). \<exists>n.
          r ''address'' = Some address \<and> r ''num'' = Some n
          \<and> fst (get_dhcp_server_network_number address api) = Inr (PyStr n)"
    by (fastforce simp: fst_get_dhcp_server_network_number)
next
  assume "\<not> (\<exists>r\<in>set (fst (get_pppoe_server api)). r ''service_name'' = Some service_name)"
  from lookup_not_found [OF this]
  show "fst (get_pppoe_server_number service_name api)
          = Inl (RosError (''No Matched PPPoE Server Number for Service Name '' @ service_name))"
    by (simp add: fst_get_pppoe_server_number)
next
  assume "\<exists>r\<in>set (fst (get_pppoe_server api)). r ''service_name'' = Some service_name"
  from lookup_found [OF this] pppoe_server_records_complete [of api]
  show "\<exists>r\<in>set (fst (get_pppoe_server api)). \<exists>n.
          r ''service_name'' = Some service_name \<and> r ''num'' = Some n
          \<and> fst (get_pppoe_server_number service_name api) = Inr (PyStr n)"
    by (fastforce simp: fst_get_pppoe_server_number)
next
  assume "\<not> (\<exists>r\<in>set (fst (get_ppp_secret api)). r ''name'' = Some secret_name)"
  from lookup_not_found [OF this]
  show "fst (get_ppp_secret_number secret_name api)
          = Inl (RosError (''No Matched PPP Secret Number for Secret Name '' @ secret_name))"
    by (simp add: fst_get_ppp_secret_number)
next
  assume "\<exists>r\<in>set (fst (get_ppp_secret api)). r ''name'' = Some secret_name"
  from lookup_found [OF this] secret_records_complete [of api]
  show "\<exists>r\<in>set (fst (get_ppp_secret api)). \<exists>n.
          r ''name'' = Some secret_name \<and> r ''num'' = Some n
          \<and> fst (get_ppp_secret_number secret_name api) = Inr (PyStr n)"
    by (fastforce simp: fst_get_ppp_secret_number)
qed

subsection \<open>The records of the examples\<close>

lemma network_fixture_records:
  "fst (get_dhcp_server_network (answering network_fixture))
     = [network_dict [''0'', ''10.0.0.0/8'', ''10.0.0.1'', ''255.0.0.0'', ''8.8.8.8'']]"
  by (simp add: fst_get_dhcp_server_network untag_network_fixture findall_network_fixture)

lemma pppoe_fixture_records:
  "fst (get_pppoe_server (answering pppoe_fixture))
     = [pppoe_server_dict [''0'', ''X'', ''svc'', ''ether1'', ''auto'', ''auto'', ''pap'', ''default''],
        pppoe_server_dict [''1'', [], ''svc'', ''ether2'', ''auto'', ''auto'', ''pap'', ''p1'']]"
  by (simp add: fst_get_pppoe_server untag_pppoe_fixture findall_pppoe_fixture)

lemma pppoe_invalid_fixture_records:
  "fst (get_pppoe_server (answering pppoe_invalid_fixture))
     = [pppoe_server_dict [''0'', ''I'', ''svc'', ''ether1'', ''auto'', ''auto'', ''pap'', ''default''],
        pppoe_server_dict [''1'', ''XI'', ''web'', ''ether2'', ''auto'', ''auto'', ''pap'', ''p1'']]"
  by (simp add: fst_get_pppoe_server untag_pppoe_invalid_fixture findall_pppoe_invalid_fixture)

lemma secret_fixture_records:
  "fst (get_ppp_secret (answering secret_fixture))
     = [secret_dict [''0'', ''X'', ''alice'', ''pppoe'', ''pw1'', ''default''],
        secret_dict [''1'', '' '', ''bob'', ''pppoe'', ''pw2'', ''p1''],
        secret_dict [''2'', ''I'', ''alice'', ''any'', ''pw3'', ''p2'']]"
  by (simp add: fst_get_ppp_secret untag_secret_fixture findall_secret_fixture)

theorem lookup_helpers_not_found_or_number_witness:
  "fst (get_dhcp_server_network_number ''10.9.9.0/24'' (answering network_fixture))
     = Inl (RosError ''No Matched DHCP Server Network Number for Address10.9.9.0/24'')
   \<and> fst (get_dhcp_server_network_number ''10.0.0.0/8'' (answering network_fixture))
     = Inr (PyStr ''0'')
   \<and> fst (get_pppoe_server_number ''lan'' (answering pppoe_invalid_fixture))
     = Inl (RosError ''No Matched PPPoE Server Number for Service Name lan'')
   \<and> fst (get_pppoe_server_number ''web'' (answering pppoe_invalid_fixture))
     = Inr (PyStr ''1'')
   \<and> fst (get_ppp_secret_number ''carol'' (answering secret_fixture))
     = Inl (RosError ''No Matched PPP Secret Number for Secret Name carol'')
   \<and> fst (get_ppp_secret_number ''bob'' (answering secret_fixture))
     = Inr (PyStr ''1'')"
proof (intro conjI)
  show "fst (get_dhcp_server_network_number ''10.9.9.0/24'' (answering network_fixture))
          = Inl (RosError ''No Matched DHCP Server Network Number for Address10.9.9.0/24'')"
    using lookup_helpers_not_found_or_number [of "answering network_fixture" "''10.9.9.0/24''"]
    by (simp add: network_fixture_records network_dict_def)
  show "fst (get_dhcp_server_network_number ''10.0.0.0/8'' (answering network_fixture))
          = Inr (PyStr ''0'')"
    using lookup_helpers_not_found_or_number [of "answering network_fixture" "''10.0.0.0/8''"]
    by (simp add: network_fixture_records network_dict_def)
  show "fst (get_pppoe_server_number ''lan'' (answering pppoe_invalid_fixture))
          = Inl (RosError ''No Matched PPPoE Server Number for Service Name lan'')"
    using lookup_helpers_not_found_or_number [of "answering pppoe_invalid_fixture" _ "''lan''"]
    by (simp add: pppoe_invalid_fixture_records pppoe_server_dict_def)
  show "fst (get_pppoe_server_number ''web'' (answering pppoe_invalid_fixture))
          = Inr (PyStr ''1'')"
    using lookup_helpers_not_found_or_number [of "answering pppoe_invalid_fixture" _ "''web''"]
    by (simp add: pppoe_invalid_fixture_records pppoe_server_dict_def)
  show "fst (get_ppp_secret_number ''carol'' (answering secret_fixture))
          = Inl (RosError ''No Matched PPP Secret Number for Secret Name carol'')"
    using lookup_helpers_not_found_or_number [of "answering secret_fixture" _ _ "''carol''"]
    by (simp add: secret_fixture_records secret_dict_def)
  show "fst (get_ppp_secret_number ''bob'' (answering secret_fixture))
          = Inr (PyStr ''1'')"
    using lookup_helpers_not_found_or_number [of "answering secret_fixture" _ _ "''bob''"]
    by (simp add: secret_fixture_records secret_dict_def)
qed

text \<open>
  C10: when records match the lookup key, each of the three lookup helpers returns the
  number of the last matching record in the order of extraction.
\<close>

theorem lookup_helpers_return_last_match:
  "(filter (\<lambda>r. r ''address'' = Some address) (fst (get_dhcp_server_network api)) \<noteq> []
      \<longrightarrow> (\<exists>n. last (filter (\<lambda>r. r ''address'' = Some address)
                        (fst (get_dhcp_server_network api))) ''num'' = Some n
               \<and> fst (get_dhcp_server_network_number address api) = Inr (PyStr n)))
   \<and> (filter (\<lambda>r. r ''service_name'' = Some service_name) (fst (get_pppoe_server api)) \<noteq> []
      \<longrightarrow> (\<exists>n. last (filter (\<lambda>r. r ''service_name'' = Some service_name)
                        (fst (get_pppoe_server api))) ''num'' = Some n
               \<and> fst (get_pppoe_server_number service_name api) = Inr (PyStr n)))
   \<and> (filter (\<lambda>r. r ''name'' = Some secret_name) (fst (get_ppp_secret api)) \<noteq> []
      \<longrightarrow> (\<exists>n. last (filter (\<lambda>r. r ''name'' = Some secret_name)
                        (fst (get_ppp_secret api))) ''num'' = Some n
               \<and> fst (get_ppp_secret_number secret_name api) = Inr (PyStr n)))"
proof -
  have numbered: "\<exists>n. last (filter P rs) ''num'' = Some n"
    if "filter P rs \<noteq> []" and "\<forall>r\<in>set rs. r ''num'' \<noteq> None"
    for P and rs :: "dict list"
  proof -
    from that(1) have "last (filter P rs) \<in> set (filter P rs)"
      by (rule last_in_set)
    with that(2) show ?thesis by auto
  qed
  show ?thesis
  proof (intro conjI impI)
    assume ne: "filter (\<lambda>r. r ''address'' = Some address) (fst (get_dhcp_server_network api)) \<noteq> []"
    from numbered [OF ne] network_records_complete [of api] ne
    show "\<exists>n. last (filter (\<lambda>r. r ''address'' = Some address)
                  (fst (get_dhcp_server_network api))) ''num'' = Some n
            \<and> fst (get_dhcp_server_network_number address api) = Inr (PyStr n)"
      by (auto simp: fst_get_dhcp_server_network_number split: list.splits)
  next
    assume ne: "filter (\<lambda>r. r ''service_name'' = Some service_name) (fst (get_pppoe_server api)) \<noteq> []"
    from numbered [OF ne] pppoe_server_records_complete [of api] ne
    show "\<exists>n. last (filter (\<lambda>r. r ''service_name'' = Some service_name)
                  (fst (get_pppoe_server api))) ''num'' = Some n
            \<and> fst (get_pppoe_server_number service_name api) = Inr (PyStr n)"
      by (auto simp: fst_get_pppoe_server_number split: list.splits)
  next
    assume ne: "filter (\<lambda>r. r ''name'' = Some secret_name) (fst (get_ppp_secret api)) \<noteq> []"
    from numbered [OF ne] secret_records_complete [of api] ne
    show "\<exists>n. last (filter (\<lambda>r. r ''name'' = Some secret_name)
                  (fst (get_ppp_secret api))) ''num'' = Some n
            \<and> fst (get_ppp_secret_number secret_name api) = Inr (PyStr n)"
      by (auto simp: fst_get_ppp_secret_number split: list.splits)
  qed
qed

theorem lookup_helpers_return_last_match_witness:
  "length (filter (\<lambda>r. r ''service_name'' = Some ''svc'')
             (fst (get_pppoe_server (answering pppoe_fixture)))) = 2
   \<and> fst (get_pppoe_server_number ''svc'' (answering pppoe_fixture)) = Inr (PyStr ''1'')
   \<and> length (filter (\<lambda>r. r ''name'' = Some ''alice'')
             (fst (get_ppp_secret (answering secret_fixture)))) = 2
   \<and> fst (get_ppp_secret_number ''alice'' (answering secret_fixture)) = Inr (PyStr ''2'')
   \<and> length (filter (\<lambda>r. r ''address'' = Some ''10.0.0.0/8'')
             (fst (get_dhcp_server_network (answering network_fixture)))) = 1
   \<and> fst (get_dhcp_server_network_number ''10.0.0.0/8'' (answering network_fixture))
       = Inr (PyStr ''0'')"
proof (intro conjI)
  show "length (filter (\<lambda>r. r ''service_name'' = Some ''svc'')
             (fst (get_pppoe_server (answering pppoe_fixture)))) = 2"
    by (simp add: pppoe_fixture_records pppoe_server_dict_def)
  show "fst (get_pppoe_server_number ''svc'' (answering pppoe_fixture)) = Inr (PyStr ''1'')"
    using lookup_helpers_return_last_match [of _ "answering pppoe_fixture" "''svc''"]
    by (simp add: pppoe_fixture_records pppoe_server_dict_def)
  show "length (filter (\<lambda>r. r ''name'' = Some ''alice'')
             (fst (get_ppp_secret (answering secret_fixture)))) = 2"
    by (simp add: secret_fixture_records secret_dict_def)
  show "fst (get_ppp_secret_number ''alice'' (answering secret_fixture)) = Inr (PyStr ''2'')"
    using lookup_helpers_return_last_match [of _ "answering secret_fixture" _ "''alice''"]
    by (simp add: secret_fixture_records secret_dict_def)
  show "length (filter (\<lambda>r. r ''address'' = Some ''10.0.0.0/8'')
             (fst (get_dhcp_server_network (answering network_fixture)))) = 1"
    by (simp add: network_fixture_records network_dict_def)
  show "fst (get_dhcp_server_network_number ''10.0.0.0/8'' (answering network_fixture))
       = Inr (PyStr ''0'')"
    using lookup_helpers_return_last_match [of "''10.0.0.0/8''" "answering network_fixture"]
    by (simp add: network_fixture_records network_dict_def)
qed

subsection \<open>\<open>set_pppoe_server_dns\<close>\<close>

lemma service_name_loop_unassigned:
  assumes "\<forall>server\<in>set servers. server ''num'' \<noteq> None \<and> server ''num'' \<noteq> Some numbers"
  shows "service_name_loop numbers servers service_name = Inr service_name"
  using assms by (induction servers) (auto simp: getitem_def)

lemma profile_name_loop_unbound:
  assumes "servers \<noteq> []" and "hd servers ''service_name'' \<noteq> None"
  shows "profile_name_loop None servers profile_name = Inl (UnboundLocalError ''service_name'')"
  using assms by (cases servers) (auto simp: getitem_def)

text \<open>
  C9: whenever no extracted PPPoE server record has the number asked for,
  \<open>set_pppoe_server_dns\<close> ends with the error of an unassigned variable and not with
  a \<open>RosError\<close>: \<open>service_name\<close> is read (by the comparison of the second loop, or
  by the message when there is no record at all) without having been assigned.
\<close>

theorem set_pppoe_server_dns_unbound_service_name:
  "(\<forall>server\<in>set (fst (get_pppoe_server api)). server ''num'' \<noteq> Some numbers)
     \<longrightarrow> fst (set_pppoe_server_dns numbers new_dns api) = Inl (UnboundLocalError ''service_name'')"
proof
  assume no: "\<forall>server\<in>set (fst (get_pppoe_server api)). server ''num'' \<noteq> Some numbers"
  define servers where "servers = fst (get_pppoe_server api)"
  have complete: "\<forall>server\<in>set servers. server ''service_name'' \<noteq> None \<and> server ''num'' \<noteq> None"
    unfolding servers_def using pppoe_server_records_complete [of api] by simp
  with no have "\<forall>server\<in>set servers. server ''num'' \<noteq> None \<and> server ''num'' \<noteq> Some numbers"
    unfolding servers_def by simp
  then have first: "service_name_loop numbers servers None = Inr None"
    by (rule service_name_loop_unassigned)
  show "fst (set_pppoe_server_dns numbers new_dns api) = Inl (UnboundLocalError ''service_name'')"
  proof (cases "servers = []")
    case True
    with first show ?thesis
      by (simp add: set_pppoe_server_dns_def split_def servers_def [symmetric])
  next
    case False
    with complete have "hd servers ''service_name'' \<noteq> None"
      by (cases servers) auto
    from profile_name_loop_unbound [OF False this] first show ?thesis
      by (simp add: set_pppoe_server_dns_def split_def servers_def [symmetric])
  qed
qed

lemma silent_no_servers: "fst (get_pppoe_server silent) = []"
  by (simp add: fst_get_pppoe_server untag_def pppoe_server_pattern_def)

theorem set_pppoe_server_dns_unbound_service_name_witness:
  "length (fst (get_pppoe_server (answering pppoe_fixture))) = 2
   \<and> fst (set_pppoe_server_dns ''5'' ''8.8.8.8'' (answering pppoe_fixture))
       = Inl (UnboundLocalError ''service_name'')
   \<and> fst (get_pppoe_server silent) = []
   \<and> fst (set_pppoe_server_dns ''0'' ''8.8.8.8'' silent) = Inl (UnboundLocalError ''service_name'')"
proof (intro conjI)
  show "length (fst (get_pppoe_server (answering pppoe_fixture))) = 2"
    by (simp add: pppoe_fixture_records)
  show "fst (set_pppoe_server_dns ''5'' ''8.8.8.8'' (answering pppoe_fixture))
       = Inl (UnboundLocalError ''service_name'')"
    using set_pppoe_server_dns_unbound_service_name [of "answering pppoe_fixture" "''5''" "''8.8.8.8''"]
    by (simp add: pppoe_fixture_records pppoe_server_dict_def)
  show "fst (get_pppoe_server silent) = []"
    by (rule silent_no_servers)
  show "fst (set_pppoe_server_dns ''0'' ''8.8.8.8'' silent) = Inl (UnboundLocalError ''service_name'')"
    using set_pppoe_server_dns_unbound_service_name [of silent "''0''" "''8.8.8.8''"]
    by (simp add: silent_no_servers)
qed

subsection \<open>The matches of \<open>findall\<close>\<close>

lemma findall_Nil_iff:
  "findall p s = [] \<longleftrightarrow> (\<forall>i\<le>length s. rmatch p (drop i s) = None)"
proof (induction p s rule: findall.induct)
  case (1 p)
  then show ?case by (auto split: option.splits)
next
  case (2 p c cs)
  show ?case
  proof (cases "rmatch p (c # cs)")
    case None
    have "(\<forall>i\<le>length (c # cs). rmatch p (drop i (c # cs)) = None)
            \<longleftrightarrow> (\<forall>i\<le>length cs. rmatch p (drop i cs) = None)"
    proof
      assume a: "\<forall>i\<le>length (c # cs). rmatch p (drop i (c # cs)) = None"
      show "\<forall>i\<le>length cs. rmatch p (drop i cs) = None"
      proof (intro allI impI)
        fix i assume "i \<le> length cs"
        with a have "rmatch p (drop (Suc i) (c # cs)) = None" by auto
        then show "rmatch p (drop i cs) = None" by simp
      qed
    next
      assume a: "\<forall>i\<le>length cs. rmatch p (drop i cs) = None"
      show "\<forall>i\<le>length (c # cs). rmatch p (drop i (c # cs)) = None"
      proof (intro allI impI)
        fix i assume i: "i \<le> length (c # cs)"
        show "rmatch p (drop i (c # cs)) = None"
        proof (cases i)
          case 0
          with None show ?thesis by simp
        next
          case (Suc j)
          with i a show ?thesis by simp
        qed
      qed
    qed
    with None 2 show ?thesis by simp
  next
    case (Some r)
    then have "\<not> (\<forall>i\<le>length (c # cs). rmatch p (drop i (c # cs)) = None)"
      by (auto intro: exI [of _ 0])
    with Some show ?thesis by (cases r) simp
  qed
qed

lemma findall_first:
  assumes "rmatch p (drop i s) = Some (caps, n)" and "\<forall>j<i. rmatch p (drop j s) = None"
    and "i \<le> length s"
  shows "\<exists>rest. findall p s = caps # rest"
  using assms
proof (induction s arbitrary: i)
  case Nil
  then show ?case by simp
next
  case (Cons c cs)
  show ?case
  proof (cases i)
    case 0
    with Cons.prems(1) show ?thesis by simp
  next
    case (Suc k)
    with Cons.prems(2) have none: "rmatch p (c # cs) = None"
      by (metis drop0 zero_less_Suc)
    have "\<forall>j<k. rmatch p (drop j cs) = None"
    proof (intro allI impI)
      fix j assume "j < k"
      with Suc Cons.prems(2) have "rmatch p (drop (Suc j) (c # cs)) = None" by auto
      then show "rmatch p (drop j cs) = None" by simp
    qed
    moreover from Suc Cons.prems have "rmatch p (drop k cs) = Some (caps, n)" "k \<le> length cs"
      by simp_all
    ultimately have "\<exists>rest. findall p cs = caps # rest"
      using Cons.IH [of k] by blast
    with none show ?thesis by simp
  qed
qed

subsection \<open>The failure pattern\<close>

lemma rep_dot_star_newline:
  "rep Dot Star [Lit [LF, CR]] s
     = (if take 2 (dropWhile (\<lambda>c. c \<noteq> LF) s) = [LF, CR]
        then Some (takeWhile (\<lambda>c. c \<noteq> LF) s, [], 2) else None)"
  by (induction s) auto

lemma rmatch_failure_pattern:
  "rmatch failure_pattern s
     = (if take 3 s = [CR, LF, CR]
           \<and> take 2 (dropWhile (\<lambda>c. c \<noteq> LF) (drop 3 s)) = [LF, CR]
        then Some ([takeWhile (\<lambda>c. c \<noteq> LF) (drop 3 s)],
                   length (takeWhile (\<lambda>c. c \<noteq> LF) (drop 3 s)) + 5)
        else None)"
  by (simp add: failure_pattern_def rep_dot_star_newline eval_nat_numeral)

lemma failure_marker_at_iff:
  "failure_marker_at s msg \<longleftrightarrow>
     take 3 s = [CR, LF, CR] \<and> msg = takeWhile (\<lambda>c. c \<noteq> LF) (drop 3 s)
     \<and> take 2 (dropWhile (\<lambda>c. c \<noteq> LF) (drop 3 s)) = [LF, CR]"
proof
  assume "failure_marker_at s msg"
  then obtain rest where s: "s = [CR, LF, CR] @ msg @ [LF, CR] @ rest" and msg: "LF \<notin> set msg"
    by (auto simp: failure_marker_at_def prefix_def)
  from msg have "\<And>x. x \<in> set msg \<Longrightarrow> x \<noteq> LF"
    by auto
  then have "takeWhile (\<lambda>c. c \<noteq> LF) (msg @ LF # CR # rest) = msg"
    and "dropWhile (\<lambda>c. c \<noteq> LF) (msg @ LF # CR # rest) = LF # CR # rest"
    by simp_all
  with s show "take 3 s = [CR, LF, CR] \<and> msg = takeWhile (\<lambda>c. c \<noteq> LF) (drop 3 s)
     \<and> take 2 (dropWhile (\<lambda>c. c \<noteq> LF) (drop 3 s)) = [LF, CR]"
    by simp
next
  assume a: "take 3 s = [CR, LF, CR] \<and> msg = takeWhile (\<lambda>c. c \<noteq> LF) (drop 3 s)
     \<and> take 2 (dropWhile (\<lambda>c. c \<noteq> LF) (drop 3 s)) = [LF, CR]"
  define d where "d = dropWhile (\<lambda>c. c \<noteq> LF) (drop 3 s)"
  have "s = take 3 s @ drop 3 s" by simp
  also have "drop 3 s = msg @ d"
    using a by (simp add: d_def)
  also have "d = take 2 d @ drop 2 d" by simp
  finally have "s = [CR, LF, CR] @ msg @ [LF, CR] @ drop 2 d"
    using a by (simp add: d_def)
  moreover have "LF \<notin> set msg"
    using a by (auto dest: set_takeWhileD)
  ultimately show "failure_marker_at s msg"
    unfolding failure_marker_at_def prefix_def by (metis append.assoc)
qed

lemma rmatch_failure_Some_iff:
  "rmatch failure_pattern s = Some (caps, n)
     \<longleftrightarrow> (\<exists>msg. failure_marker_at s msg \<and> caps = [msg] \<and> n = length msg + 5)"
  by (auto simp: rmatch_failure_pattern failure_marker_at_iff)

lemma rmatch_failure_None_iff:
  "rmatch failure_pattern s = None \<longleftrightarrow> (\<forall>msg. \<not> failure_marker_at s msg)"
  by (auto simp: rmatch_failure_pattern failure_marker_at_iff)

lemma no_marker_behind_the_end: "length s \<le> i \<Longrightarrow> \<not> failure_marker_at (drop i s) msg"
  by (simp add: failure_marker_at_def)

lemma check_result_Inr_iff:
  "check_result whr text = Inr (whr @ '' Success'')
     \<longleftrightarrow> \<not> (\<exists>i msg. failure_marker_at (drop i text) msg)"
proof -
  have "check_result whr text = Inr (whr @ '' Success'') \<longleftrightarrow> findall failure_pattern text = []"
    by (cases "findall failure_pattern text") (simp_all add: check_result_def)
  also have "\<dots> \<longleftrightarrow> (\<forall>i\<le>length text. \<forall>msg. \<not> failure_marker_at (drop i text) msg)"
    by (simp add: findall_Nil_iff rmatch_failure_None_iff)
  also have "\<dots> \<longleftrightarrow> \<not> (\<exists>i msg. failure_marker_at (drop i text) msg)"
    using no_marker_behind_the_end [of "text"] by (metis nat_le_linear)
  finally show ?thesis .
qed

lemma check_result_first_marker:
  assumes "failure_marker_at (drop i text) msg"
    and "\<forall>j<i. \<forall>m. \<not> failure_marker_at (drop j text) m"
  shows "check_result whr text = Inl (RosError (whr @ '' Failed, '' @ msg))"
proof -
  have i: "i \<le> length text"
  proof (rule ccontr)
    assume "\<not> i \<le> length text"
    then have "length text \<le> i" by simp
    from no_marker_behind_the_end [OF this] assms(1) show False by blast
  qed
  have "rmatch failure_pattern (drop i text) = Some ([msg], length msg + 5)"
    using assms(1) by (simp add: rmatch_failure_Some_iff)
  moreover have "\<forall>j<i. rmatch failure_pattern (drop j text) = None"
    using assms(2) by (simp add: rmatch_failure_None_iff)
  ultimately obtain rest where "findall failure_pattern text = [msg] # rest"
    using findall_first i by blast
  then show ?thesis by (simp add: check_result_def)
qed

text \<open>
  C3, amended: the failure marker is carriage return, newline, carriage return, then a
  message that contains no newline, then newline and carriage return. For every operation
  name and every text, the result check raises an error if and only if the marker stands
  somewhere in the text; the error carries the operation name and the message of the
  leftmost marker, also when several markers are present; and when there is no marker
  the check returns normally and records success.
\<close>

theorem check_result_raises_iff_marker:
  "((\<exists>e. check_result whr text = Inl e) \<longleftrightarrow> (\<exists>i msg. failure_marker_at (drop i text) msg))
   \<and> (failure_marker_at (drop i text) msg \<and> (\<forall>j<i. \<forall>m. \<not> failure_marker_at (drop j text) m)
        \<longrightarrow> check_result whr text = Inl (RosError (whr @ '' Failed, '' @ msg)))
   \<and> (\<not> (\<exists>i msg. failure_marker_at (drop i text) msg)
        \<longrightarrow> check_result whr text = Inr (whr @ '' Success''))"
proof (intro conjI impI)
  show "(\<exists>e. check_result whr text = Inl e) \<longleftrightarrow> (\<exists>i msg. failure_marker_at (drop i text) msg)"
    using check_result_Inr_iff [of whr "text"] check_result_cases [of whr "text"] by auto
  show "check_result whr text = Inl (RosError (whr @ '' Failed, '' @ msg))"
    if "failure_marker_at (drop i text) msg \<and> (\<forall>j<i. \<forall>m. \<not> failure_marker_at (drop j text) m)"
    using that check_result_first_marker by blast
  show "check_result whr text = Inr (whr @ '' Success'')"
    if "\<not> (\<exists>i msg. failure_marker_at (drop i text) msg)"
    using that check_result_Inr_iff by blast
qed

theorem check_result_raises_iff_marker_witness:
  "failure_marker_at (drop 1 failure_fixture) ''no such item''
   \<and> failure_marker_at (drop 18 failure_fixture) ''second failure''
   \<and> check_result ''Add Pool'' failure_fixture = Inl (RosError ''Add Pool Failed, no such item'')
   \<and> check_result ''Add Pool'' ''>'' = Inr ''Add Pool Success''"
proof -
  have first: "failure_marker_at (drop 1 failure_fixture) ''no such item''"
    by (simp add: failure_marker_at_def failure_fixture_def)
  have second: "failure_marker_at (drop 18 failure_fixture) ''second failure''"
    by (simp add: failure_marker_at_def failure_fixture_def)
  have before: "\<forall>j<1. \<forall>m. \<not> failure_marker_at (drop j failure_fixture) m"
    by (simp add: failure_marker_at_def failure_fixture_def)
  have none: "\<not> (\<exists>i msg. failure_marker_at (drop i ''>'') msg)"
  proof -
    have "\<not> failure_marker_at (drop i ''>'') msg" for i msg
      by (cases i) (simp_all add: failure_marker_at_def)
    then show ?thesis by blast
  qed
  from check_result_raises_iff_marker [of "''Add Pool''" failure_fixture 1 "''no such item''"]
    first before
  have "check_result ''Add Pool'' failure_fixture
          = Inl (RosError (''Add Pool'' @ '' Failed, '' @ ''no such item''))"
    by blast
  moreover from check_result_raises_iff_marker [of "''Add Pool''" "''>''"] none
  have "check_result ''Add Pool'' ''>'' = Inr (''Add Pool'' @ '' Success'')"
    by blast
  ultimately show ?thesis
    using first second by simp
qed

text \<open>
  C3, as the specification states it, fails: a text with two carriage returns, a message,
  newline and carriage return does not make the check raise; nor does a marker whose
  text contains a newline.
\<close>

theorem check_result_misses_spec_marker:
  "spec_failure_marker_at two_cr_fixture ''no such item''
   \<and> check_result ''Add Pool'' two_cr_fixture = Inr ''Add Pool Success''
   \<and> prefix ([CR, LF, CR] @ (''no such'' @ [LF] @ ''item'') @ [LF, CR]) two_line_fixture
   \<and> check_result ''Add Pool'' two_line_fixture = Inr ''Add Pool Success''"
  by (simp add: spec_failure_marker_at_def two_cr_fixture_def two_line_fixture_def
      check_result_def failure_pattern_def)

subsection \<open>The address pools\<close>

text \<open>
  C4, as the specification states it, fails: from a response that consists of exactly
  the two lines, with nothing behind the ranges values, nothing is extracted.
\<close>

theorem get_address_pool_bare_lines:
  "fst (get_address_pool (answering pool_bare_fixture)) = []"
  by (simp add: fst_get_address_pool untag_pool_bare_fixture findall_pool_bare_fixture)

text \<open>
  C4, amended: when each of the two address-pool lines ends with a space behind its
  ranges value, as the console prints it, the extraction returns exactly two pairs of
  name and ranges, in the order of the source: \<open>pppoe\<close> with
  \<open>192.168.100.201-192.168.100.250\<close>, then \<open>static\<close> with
  \<open>192.168.2.1-192.168.2.100\<close>.
\<close>

theorem get_address_pool_fixture:
  "fst (get_address_pool (answering pool_fixture))
     = [(''pppoe'', ''192.168.100.201-192.168.100.250''),
        (''static'', ''192.168.2.1-192.168.2.100'')]
   \<and> fst (get_address_pool (answering pool_console_fixture))
     = [(''pppoe'', ''192.168.100.201-192.168.100.250''),
        (''static'', ''192.168.2.1-192.168.2.100'')]"
  by (simp add: fst_get_address_pool untag_pool_fixture findall_pool_fixture
      untag_pool_console_fixture findall_pool_console_fixture)

subsection \<open>The status flag\<close>

lemma pppoe_dynamic_fixture_records:
  "fst (get_pppoe_server (answering pppoe_dynamic_fixture))
     = [pppoe_server_dict [''0'', ''D'', ''svc'', ''ether1'', ''auto'', ''auto'', ''pap'', ''default'']]"
  by (simp add: fst_get_pppoe_server untag_pppoe_dynamic_fixture findall_pppoe_dynamic_fixture)

text \<open>
  C1, as the specification states it, fails: a record whose status-flag code is \<open>D\<close>,
  none of the four codes, is extracted with the status \<open>enabled\<close>, and nothing is
  raised; the PPP secrets with a blank and with \<open>I\<close> in the flag column come out
  \<open>enabled\<close> as well.
\<close>

theorem status_flag_other_code_is_enabled:
  "pppoe_server_codes (answering pppoe_dynamic_fixture) = [''D'']
   \<and> map (\<lambda>r. r ''status'') (fst (get_pppoe_server (answering pppoe_dynamic_fixture)))
       = [Some ''enabled'']
   \<and> secret_codes (answering secret_fixture) = [''X'', '' '', ''I'']
   \<and> map (\<lambda>r. r ''status'') (fst (get_ppp_secret (answering secret_fixture)))
       = [Some ''disabled'', Some ''enabled'', Some ''enabled'']"
  by (simp add: pppoe_server_codes_def secret_codes_def
      untag_pppoe_dynamic_fixture findall_pppoe_dynamic_fixture
      untag_secret_fixture findall_secret_fixture
      pppoe_dynamic_fixture_records secret_fixture_records
      pppoe_server_dict_def secret_dict_def)

text \<open>
  C1, amended: the status of every extracted record is a total function of its
  status-flag code, and no code raises. For a PPPoE server \<open>X\<close> gives
  \<open>disabled\<close>, \<open>I\<close> gives \<open>invalid\<close>, \<open>XI\<close> gives
  \<open>disabled and invalid\<close>, and every other code, the empty one included, gives
  \<open>enabled\<close>. For a PPP secret \<open>X\<close> gives \<open>disabled\<close> and every other code
  gives \<open>enabled\<close>.
\<close>

theorem status_flag_mapping:
  "length (fst (get_pppoe_server api)) = length (pppoe_server_codes api)
   \<and> (\<forall>i<length (pppoe_server_codes api).
        (pppoe_server_codes api ! i = ''X''
           \<longrightarrow> (fst (get_pppoe_server api) ! i) ''status'' = Some ''disabled'')
        \<and> (pppoe_server_codes api ! i = ''I''
           \<longrightarrow> (fst (get_pppoe_server api) ! i) ''status'' = Some ''invalid'')
        \<and> (pppoe_server_codes api ! i = ''XI''
           \<longrightarrow> (fst (get_pppoe_server api) ! i) ''status'' = Some ''disabled and invalid'')
        \<and> (pppoe_server_codes api ! i \<notin> {''X'', ''I'', ''XI''}
           \<longrightarrow> (fst (get_pppoe_server api) ! i) ''status'' = Some ''enabled''))
   \<and> length (fst (get_ppp_secret api)) = length (secret_codes api)
   \<and> (\<forall>i<length (secret_codes api).
        (secret_codes api ! i = ''X''
           \<longrightarrow> (fst (get_ppp_secret api) ! i) ''status'' = Some ''disabled'')
        \<and> (secret_codes api ! i \<noteq> ''X''
           \<longrightarrow> (fst (get_ppp_secret api) ! i) ''status'' = Some ''enabled''))"
  by (simp add: fst_get_pppoe_server fst_get_ppp_secret pppoe_server_codes_def secret_codes_def
      pppoe_server_dict_def secret_dict_def)

lemma pppoe_fixture_codes: "pppoe_server_codes (answering pppoe_fixture) = [''X'', []]"
  by (simp add: pppoe_server_codes_def untag_pppoe_fixture findall_pppoe_fixture)

lemma pppoe_invalid_fixture_codes:
  "pppoe_server_codes (answering pppoe_invalid_fixture) = [''I'', ''XI'']"
  by (simp add: pppoe_server_codes_def untag_pppoe_invalid_fixture findall_pppoe_invalid_fixture)

lemma secret_fixture_codes: "secret_codes (answering secret_fixture) = [''X'', '' '', ''I'']"
  by (simp add: secret_codes_def untag_secret_fixture findall_secret_fixture)

theorem status_flag_mapping_witness:
  "pppoe_server_codes (answering pppoe_fixture) = [''X'', '''']
   \<and> (fst (get_pppoe_server (answering pppoe_fixture)) ! 0) ''status'' = Some ''disabled''
   \<and> (fst (get_pppoe_server (answering pppoe_fixture)) ! 1) ''status'' = Some ''enabled''
   \<and> pppoe_server_codes (answering pppoe_invalid_fixture) = [''I'', ''XI'']
   \<and> (fst (get_pppoe_server (answering pppoe_invalid_fixture)) ! 0) ''status'' = Some ''invalid''
   \<and> (fst (get_pppoe_server (answering pppoe_invalid_fixture)) ! 1) ''status''
       = Some ''disabled and invalid''
   \<and> secret_codes (answering secret_fixture) = [''X'', '' '', ''I'']
   \<and> (fst (get_ppp_secret (answering secret_fixture)) ! 0) ''status'' = Some ''disabled''
   \<and> (fst (get_ppp_secret (answering secret_fixture)) ! 1) ''status'' = Some ''enabled''"
proof -
  note a = status_flag_mapping [of "answering pppoe_fixture",
      unfolded pppoe_fixture_codes, THEN conjunct2, THEN conjunct1, rule_format]
  note b = status_flag_mapping [of "answering pppoe_invalid_fixture",
      unfolded pppoe_invalid_fixture_codes, THEN conjunct2, THEN conjunct1, rule_format]
  note c = status_flag_mapping [of "answering secret_fixture",
      unfolded secret_fixture_codes, THEN conjunct2, THEN conjunct2, THEN conjunct2, rule_format]
  have "(fst (get_pppoe_server (answering pppoe_fixture)) ! 0) ''status'' = Some ''disabled''"
    using a [of 0] by simp
  moreover
  have "(fst (get_pppoe_server (answering pppoe_fixture)) ! 1) ''status'' = Some ''enabled''"
    using a [of 1] by simp
  moreover
  have "(fst (get_pppoe_server (answering pppoe_invalid_fixture)) ! 0) ''status'' = Some ''invalid''"
    using b [of 0] by simp
  moreover
  have "(fst (get_pppoe_server (answering pppoe_invalid_fixture)) ! 1) ''status''
          = Some ''disabled and invalid''"
    using b [of 1] by simp
  moreover
  have "(fst (get_ppp_secret (answering secret_fixture)) ! 0) ''status'' = Some ''disabled''"
    using c [of 0] by simp
  moreover
  have "(fst (get_ppp_secret (answering secret_fixture)) ! 1) ''status'' = Some ''enabled''"
    using c [of 1] by simp
  ultimately show ?thesis
    by (simp add: pppoe_fixture_codes pppoe_invalid_fixture_codes secret_fixture_codes)
qed

end
